theory Spec2Isabelle
  imports Complex_Main
begin

section \<open>Numbers\<close>

text \<open>
  The program is TypeScript; every numeric value is an IEEE-754 double. The embedding
  idealises finite doubles as \<^typ>\<open>real\<close> (no rounding, no overflow). The one
  operation of the program whose divisor can be zero is the division \<open>distance / dt\<close> of
  the motion controller; JavaScript does not throw there but produces \<open>Infinity\<close>,
  \<open>-Infinity\<close> or \<open>NaN\<close>, so the result of that division and of the two operations applied
  to it afterwards is a \<open>jsnum\<close>.
\<close>

datatype jsnum = Finite real | PosInfinity | NegInfinity | NaN

text \<open>\<open>a / b\<close> on two finite numbers.\<close>

definition js_div :: "real \<Rightarrow> real \<Rightarrow> jsnum" where
  "js_div a b =
     (if b \<noteq> 0 then Finite (a / b)
      else if 0 < a then PosInfinity
      else if a < 0 then NegInfinity
      else NaN)"

text \<open>\<open>v * c\<close> for a finite constant \<open>c\<close>.\<close>

fun js_times :: "jsnum \<Rightarrow> real \<Rightarrow> jsnum" where
  "js_times (Finite a) c = Finite (a * c)"
| "js_times PosInfinity c = (if 0 < c then PosInfinity else if c < 0 then NegInfinity else NaN)"
| "js_times NegInfinity c = (if 0 < c then NegInfinity else if c < 0 then PosInfinity else NaN)"
| "js_times NaN c = NaN"

text \<open>\<open>Math.min(v, c)\<close> for a finite constant \<open>c\<close>: \<open>NaN\<close> if \<open>v\<close> is \<open>NaN\<close>.\<close>

fun Math_min :: "jsnum \<Rightarrow> real \<Rightarrow> jsnum" where
  "Math_min (Finite a) c = Finite (min a c)"
| "Math_min PosInfinity c = Finite c"
| "Math_min NegInfinity c = NegInfinity"
| "Math_min NaN c = NaN"

section \<open>The motion controller: velocity from consecutive wrist samples\<close>

text \<open>
  \<open>lastHandPos\<close> is a React ref holding \<open>{x, y, time}\<close> or \<open>null\<close>. A detected hand is an
  array of landmarks, of which only index 0 (the wrist) is read.
\<close>

record landmark =
  lx :: real
  ly :: real

record handPos =
  px :: real
  py :: real
  ptime :: real

text \<open>
  What one call of \<open>predictWebcam\<close> reads from its environment: whether the landmarker
  and video refs are set, the video's dimensions, the detector's \<open>result.landmarks\<close>
  (one landmark array per detected hand), the reading \<open>currentTime\<close> of
  \<open>performance.now()\<close> in milliseconds, and the \<open>isActive\<close> prop. The call of the
  detector is taken to return its result.
\<close>

record frame =
  refsReady :: bool
  videoWidth :: nat
  videoHeight :: nat
  landmarks :: "landmark list list"
  currentTime :: real
  isActive :: bool

text \<open>
  What one call leaves behind: the new content of the ref \<open>lastHandPos\<close>, the argument of
  the call of \<open>onVelocityChange\<close> if there was one, and whether another animation frame
  was requested.
\<close>

record outcome =
  lastHandPos :: "handPos option"
  emitted :: "jsnum option"
  requested :: bool

text \<open>Reading \<open>wrist.x\<close> when \<open>hand[0]\<close> is \<open>undefined\<close> throws.\<close>

datatype error = TypeError

text \<open>The arithmetic of the branch taken when a previous sample exists.\<close>

definition velocityFrom :: "handPos \<Rightarrow> landmark \<Rightarrow> real \<Rightarrow> jsnum" where
  "velocityFrom prev wrist now =
     (let dx = lx wrist - px prev;
          dy = ly wrist - py prev;
          distance = sqrt (dx * dx + dy * dy);
          dt = (now - ptime prev) / 1000;
          velocity = js_div distance dt
      in Math_min (js_times velocity 2) 1.5)"

definition predictWebcam :: "handPos option \<Rightarrow> frame \<Rightarrow> error + outcome" where
  "predictWebcam prev f =
     (if \<not> refsReady f then
        Inr \<lparr>lastHandPos = prev, emitted = None, requested = False\<rparr>
      else if videoWidth f = 0 \<or> videoHeight f = 0 then
        Inr \<lparr>lastHandPos = prev, emitted = None, requested = True\<rparr>
      else if landmarks f \<noteq> [] then
        (case hd (landmarks f) of
           [] \<Rightarrow> Inl TypeError
         | wrist # _ \<Rightarrow>
             Inr \<lparr>lastHandPos =
                    Some \<lparr>px = lx wrist, py = ly wrist, ptime = currentTime f\<rparr>,
                  emitted =
                    (case prev of
                       None \<Rightarrow> None
                     | Some l \<Rightarrow> Some (velocityFrom l wrist (currentTime f))),
                  requested = isActive f\<rparr>)
      else
        Inr \<lparr>lastHandPos = None, emitted = Some (Finite 0), requested = isActive f\<rparr>)"

text \<open>The call gets as far as running the detector.\<close>

definition detectorRan :: "frame \<Rightarrow> bool" where
  "detectorRan f \<longleftrightarrow> refsReady f \<and> videoWidth f \<noteq> 0 \<and> videoHeight f \<noteq> 0"

text \<open>
  The callback reschedules itself on the next animation frame. \<open>feed\<close> runs it on a
  sequence of frames and collects the arguments of the calls of \<open>onVelocityChange\<close>, in
  order; a throw ends the sequence, and so does a call that requests no further frame.
\<close>

fun feed :: "handPos option \<Rightarrow> frame list \<Rightarrow> error + (handPos option \<times> jsnum list)" where
  "feed prev [] = Inr (prev, [])"
| "feed prev (f # fs) =
     (case predictWebcam prev f of
        Inl e \<Rightarrow> Inl e
      | Inr out \<Rightarrow>
          (case (if requested out then feed (lastHandPos out) fs
                 else Inr (lastHandPos out, [])) of
             Inl e \<Rightarrow> Inl e
           | Inr (final, vs) \<Rightarrow>
               Inr (final, (case emitted out of None \<Rightarrow> vs | Some v \<Rightarrow> v # vs))))"

text \<open>
  A frame of a running 640x480 video on which the detector reported one hand, of one
  landmark (the wrist) at \<open>(x, y)\<close>, at time \<open>now\<close>.
\<close>

definition wristAt :: "real \<Rightarrow> real \<Rightarrow> real \<Rightarrow> frame" where
  "wristAt x y now =
     \<lparr>refsReady = True, videoWidth = 640, videoHeight = 480,
      landmarks = [ [\<lparr>lx = x, ly = y\<rparr>] ], currentTime = now, isActive = True\<rparr>"

section \<open>The audio engine\<close>

text \<open>
  The Web Audio objects the engine holds, with the fields the engine sets. An
  \<open>AudioParam\<close> has its \<open>value\<close> and the \<open>setTargetAtTime(target, startTime, timeConstant)\<close>
  events scheduled on it, oldest first. Each node lists the nodes its output is connected
  to.
\<close>

datatype contextState = suspended | running | closed

datatype nodeId = FilterNode | GainNode | Destination

record AudioContext =
  sampleRate :: nat
  ctxState :: contextState

record AudioParam =
  pvalue :: real
  targets :: "(real \<times> real \<times> real) list"

record AudioBufferSourceNode =
  buffer :: "real list"
  looping :: bool
  sourceOutputs :: "nodeId list"
  startedAt :: "real option"

record BiquadFilterNode =
  filterType :: string
  frequency :: AudioParam
  filterOutputs :: "nodeId list"

record GainNode =
  gain :: AudioParam
  gainOutputs :: "nodeId list"

record AudioEngine =
  ctx :: "AudioContext option"
  noiseNode :: "AudioBufferSourceNode option"
  gainNode :: "GainNode option"
  filterNode :: "BiquadFilterNode option"
  isInitialized :: bool

text \<open>The engine as the class's field initialisers leave it.\<close>

definition newAudioEngine :: AudioEngine where
  "newAudioEngine =
     \<lparr>ctx = None, noiseNode = None, gainNode = None, filterNode = None,
      isInitialized = False\<rparr>"

text \<open>
  What \<open>init\<close> reads from the platform: the sample rate and the state of the context that
  \<open>new AudioContext()\<close> returns, and the results of the successive calls of
  \<open>Math.random()\<close> (\<open>random k\<close> is the result of call number \<open>k\<close>, counted from 0).
\<close>

record platform =
  deviceSampleRate :: nat
  initialCtxState :: contextState
  random :: "nat \<Rightarrow> real"

text \<open>
  The loop filling the noise buffer, from index \<open>i\<close> on. \<open>output\<close> is the channel data, a
  \<open>Float32Array\<close> of length \<open>bufferSize\<close>, so every index the loop writes is in range; the
  rounding to single precision on each store is not modelled.
\<close>

function noiseLoop :: "(nat \<Rightarrow> real) \<Rightarrow> nat \<Rightarrow> nat \<Rightarrow> real \<Rightarrow> real list \<Rightarrow> real list" where
  "noiseLoop rnd bufferSize i lastOut output =
     (if i < bufferSize then
        (let white = rnd i * 2 - 1;
             output1 = output[i := (lastOut + 0.02 * white) / 1.02];
             lastOut1 = output1 ! i;
             output2 = output1[i := output1 ! i * 3.5]
         in noiseLoop rnd bufferSize (Suc i) lastOut1 output2)
      else output)"
  by pat_completeness auto
termination
  by (relation "measure (\<lambda>(rnd, bufferSize, i, lastOut, output). bufferSize - i)") auto

declare noiseLoop.simps [simp del]

definition init :: "platform \<Rightarrow> AudioEngine \<Rightarrow> AudioEngine" where
  "init env e =
     (if isInitialized e then e
      else
        (let context = \<lparr>sampleRate = deviceSampleRate env, ctxState = initialCtxState env\<rparr>;
             bufferSize = 2 * sampleRate context;
             output = noiseLoop (random env) bufferSize 0 0 (replicate bufferSize 0);
             noise = \<lparr>buffer = output, looping = True,
                      sourceOutputs = [FilterNode], startedAt = Some 0\<rparr>;
             filt = \<lparr>filterType = ''lowpass'',
                     frequency = \<lparr>pvalue = 200, targets = []\<rparr>,
                     filterOutputs = [GainNode]\<rparr>;
             gn = \<lparr>gain = \<lparr>pvalue = 0, targets = []\<rparr>, gainOutputs = [Destination]\<rparr>
         in \<lparr>ctx = Some context, noiseNode = Some noise, gainNode = Some gn,
             filterNode = Some filt, isInitialized = True\<rparr>))"

definition resume :: "AudioEngine \<Rightarrow> AudioEngine" where
  "resume e =
     (case ctx e of
        None \<Rightarrow> e
      | Some c \<Rightarrow> if ctxState c = suspended then e\<lparr>ctx := Some (c\<lparr>ctxState := running\<rparr>)\<rparr> else e)"

text \<open>\<open>param.setTargetAtTime(target, startTime, timeConstant)\<close>.\<close>

definition setTargetAtTime :: "real \<Rightarrow> real \<Rightarrow> real \<Rightarrow> AudioParam \<Rightarrow> AudioParam" where
  "setTargetAtTime target startTime timeConstant p =
     p\<lparr>targets := targets p @ [(target, startTime, timeConstant)]\<rparr>"

text \<open>\<open>now\<close> is the reading of \<open>this.ctx.currentTime\<close>.\<close>

definition updateWind :: "real \<Rightarrow> real \<Rightarrow> AudioEngine \<Rightarrow> AudioEngine" where
  "updateWind now intensity e =
     (case (ctx e, gainNode e, filterNode e) of
        (Some c, Some g, Some f) \<Rightarrow>
          (let targetGain = min (intensity * 1.5) 0.8;
               targetFreq = 200 + (intensity * 1500)
           in e\<lparr>gainNode := Some (g\<lparr>gain := setTargetAtTime targetGain now 0.1 (gain g)\<rparr>),
                filterNode :=
                  Some (f\<lparr>frequency := setTargetAtTime targetFreq now 0.2 (frequency f)\<rparr>)\<rparr>)
      | _ \<Rightarrow> e)"

definition stop :: "AudioEngine \<Rightarrow> AudioEngine" where
  "stop e =
     (case ctx e of
        None \<Rightarrow> e
      | Some c \<Rightarrow> e\<lparr>ctx := Some (c\<lparr>ctxState := closed\<rparr>), isInitialized := False\<rparr>)"

text \<open>
  A stub for the source of random numbers: every call of \<open>Math.random()\<close> returns \<open>c\<close>.
  With it, a platform of sample rate 1 whose context starts suspended.
\<close>

definition constantDraws :: "real \<Rightarrow> nat \<Rightarrow> real" where
  "constantDraws c k = c"

definition testPlatform :: platform where
  "testPlatform =
     \<lparr>deviceSampleRate = 1, initialCtxState = suspended, random = constantDraws 1\<rparr>"

section \<open>The application: smoothing and session statistics\<close>

datatype AppState = INTRO | PERMISSIONS | ACTIVE | ANALYZING | INSIGHT

record sessionStats =
  totalVelocity :: real
  peakVelocity :: real
  samples :: nat
  startTime :: real



text \<open>The part of the application's state that the handlers below read and write.\<close>

record app =
  appState :: AppState
  audioEngine :: AudioEngine
  sessionStats :: sessionStats

text \<open>
  The effect that runs on a change of \<open>smoothedVelocity\<close> or of \<open>appState\<close>; \<open>now\<close> is
  the audio context's clock.
\<close>

definition smoothedVelocityEffect :: "real \<Rightarrow> real \<Rightarrow> app \<Rightarrow> app" where
  "smoothedVelocityEffect now smoothedVelocity a =
     (if appState a = ACTIVE then
        (let a1 = a\<lparr>audioEngine := updateWind now smoothedVelocity (audioEngine a)\<rparr>
         in if smoothedVelocity > 0.05 then
              (let st1 = (sessionStats a1)\<lparr>totalVelocity :=
                            totalVelocity (sessionStats a1) + smoothedVelocity\<rparr>;
                   st2 = st1\<lparr>samples := samples st1 + 1\<rparr>;
                   st3 = (if smoothedVelocity > peakVelocity st2
                          then st2\<lparr>peakVelocity := smoothedVelocity\<rparr> else st2)
               in a1\<lparr>sessionStats := st3\<rparr>)
            else a1)
      else a)"

text \<open>
  \<open>handleStart\<close>; \<open>granted\<close> says whether \<open>getUserMedia\<close> resolved (otherwise the handler
  only shows an alert), \<open>dateNow\<close> is the reading of \<open>Date.now()\<close>.
\<close>

definition handleStart :: "bool \<Rightarrow> platform \<Rightarrow> real \<Rightarrow> app \<Rightarrow> app" where
  "handleStart granted env dateNow a =
     (if granted then
        a\<lparr>appState := ACTIVE,
          audioEngine := resume (init env (audioEngine a)),
          sessionStats :=
            \<lparr>totalVelocity = 0, peakVelocity = 0, samples = 0, startTime = dateNow\<rparr>\<rparr>
      else a)"

text \<open>
  \<open>handleEndSession\<close> up to the call of \<open>generateCosmicInsight\<close>: the new state and the
  three arguments \<open>(avgSpeed, peakVelocity, duration)\<close> of that call.
\<close>

definition handleEndSession :: "real \<Rightarrow> app \<Rightarrow> app \<times> (real \<times> real \<times> real)" where
  "handleEndSession dateNow a =
     (let a1 = a\<lparr>appState := ANALYZING, audioEngine := stop (audioEngine a)\<rparr>;
          st = sessionStats a1;
          duration = (dateNow - startTime st) / 1000;
          avgSpeed = (if samples st > 0 then totalVelocity st / real (samples st) else 0)
      in (a1, (avgSpeed, peakVelocity st, duration)))"

text \<open>The effect run once for each smoothed value of a list, oldest first.\<close>

fun effects :: "(real \<times> real) list \<Rightarrow> app \<Rightarrow> app" where
  "effects [] a = a"
| "effects ((now, v) # vs) a = effects vs (smoothedVelocityEffect now v a)"

text \<open>The state as the initial values of \<open>useState\<close> and \<open>useRef\<close> give it.\<close>

definition initialApp :: app where
  "initialApp =
     \<lparr>appState = INTRO, audioEngine = newAudioEngine,
      sessionStats = \<lparr>totalVelocity = 0, peakVelocity = 0, samples = 0, startTime = 0\<rparr>\<rparr>"

subsection \<open>The statistics in double arithmetic\<close>

text \<open>
  The running sum and the average are results of double arithmetic, and whether the
  average stays between the deadband and the peak depends on their rounding. So the two
  handlers are given a second time, with each arithmetic result on the statistics rounded
  as IEEE-754 binary64 does: to the nearest number \<open>m * 2 ^ e\<close> with \<open>\<bar>m\<bar> \<le> 2 ^ 53\<close> at the
  exponent of the exact result, ties to the even \<open>m\<close>. The exponent range is taken to be
  unbounded (no overflow to \<open>Infinity\<close>, no gradual underflow); the statistics stay far
  from both ends of it. A numeric literal of the source denotes its rounding, so the
  deadband is \<open>roundDouble 0.05\<close>. The sample count is a small integer, which doubles hold
  exactly.
\<close>

definition roundTiesToEven :: "real \<Rightarrow> int" where
  "roundTiesToEven y =
     (let f = \<lfloor>y\<rfloor> in
      if y - of_int f < 1 / 2 then f
      else if 1 / 2 < y - of_int f then f + 1
      else if even f then f else f + 1)"

text \<open>The double nearest to a real number.\<close>

definition roundDouble :: "real \<Rightarrow> real" where
  "roundDouble x =
     (if x = 0 then 0
      else (let e = \<lfloor>log 2 \<bar>x\<bar>\<rfloor> - 52
            in of_int (roundTiesToEven (x / 2 powr of_int e)) * 2 powr of_int e))"

text \<open>The unit roundoff \<open>2 ^ -53\<close>: the relative error of one rounding is at most this.\<close>

definition unitRoundoff :: real where
  "unitRoundoff = 1 / 2 ^ 53"

text \<open>
  The effect on a change of \<open>smoothedVelocity\<close> or \<open>appState\<close>, with the sum rounded.
\<close>

definition smoothedVelocityEffectDouble :: "real \<Rightarrow> real \<Rightarrow> app \<Rightarrow> app" where
  "smoothedVelocityEffectDouble now smoothedVelocity a =
     (if appState a = ACTIVE then
        (let a1 = a\<lparr>audioEngine := updateWind now smoothedVelocity (audioEngine a)\<rparr>
         in if smoothedVelocity > roundDouble 0.05 then
              (let st1 = (sessionStats a1)\<lparr>totalVelocity :=
                            roundDouble (totalVelocity (sessionStats a1) + smoothedVelocity)\<rparr>;
                   st2 = st1\<lparr>samples := samples st1 + 1\<rparr>;
                   st3 = (if smoothedVelocity > peakVelocity st2
                          then st2\<lparr>peakVelocity := smoothedVelocity\<rparr> else st2)
               in a1\<lparr>sessionStats := st3\<rparr>)
            else a1)
      else a)"

text \<open>\<open>handleEndSession\<close> with the difference and the two quotients rounded.\<close>

definition handleEndSessionDouble :: "real \<Rightarrow> app \<Rightarrow> app \<times> (real \<times> real \<times> real)" where
  "handleEndSessionDouble dateNow a =
     (let a1 = a\<lparr>appState := ANALYZING, audioEngine := stop (audioEngine a)\<rparr>;
          st = sessionStats a1;
          duration = roundDouble (roundDouble (dateNow - startTime st) / 1000);
          avgSpeed = (if samples st > 0
                      then roundDouble (totalVelocity st / real (samples st)) else 0)
      in (a1, (avgSpeed, peakVelocity st, duration)))"

fun effectsDouble :: "(real \<times> real) list \<Rightarrow> app \<Rightarrow> app" where
  "effectsDouble [] a = a"
| "effectsDouble ((now, v) # vs) a = effectsDouble vs (smoothedVelocityEffectDouble now v a)"

text \<open>
  The invariant of the rounded statistics after \<open>n\<close> samples: the sum is at least
  \<open>n\<close> times the deadband less \<open>n\<close> roundings, strictly so once there is a sample, and at
  most \<open>n\<close> times the peak plus \<open>n\<close> roundings.
\<close>

definition statsInvDouble :: "sessionStats \<Rightarrow> bool" where
  "statsInvDouble st \<longleftrightarrow>
     roundDouble 0.05 * real (samples st) * (1 - unitRoundoff) ^ samples st \<le> totalVelocity st \<and>
     (0 < samples st \<longrightarrow>
        roundDouble 0.05 * real (samples st) * (1 - unitRoundoff) ^ samples st < totalVelocity st) \<and>
     totalVelocity st \<le> peakVelocity st * real (samples st) * (1 + unitRoundoff) ^ samples st \<and>
     0 \<le> peakVelocity st"

section \<open>The galaxy: particle positions\<close>

text \<open>
  The parameter object of \<open>GalaxyScene\<close>. \<open>randomnessPower\<close> is the exponent given to
  \<open>Math.pow\<close>; it is a natural number in the program.
\<close>

record parameters =
  count :: nat
  pointSize :: real
  radius :: real
  branches :: nat
  spin :: real
  randomness :: real
  randomnessPower :: nat
  insideColor :: string
  outsideColor :: string

definition parameters :: parameters where
  "parameters =
     \<lparr>count = 15000, pointSize = 0.02, radius = 5, branches = 3, spin = 1,
      randomness = 0.2, randomnessPower = 3,
      insideColor = ''#ff6030'', outsideColor = ''#1b3984''\<rparr>"

text \<open>
  One pass of the loop body makes seven calls of \<open>Math.random()\<close>, in this order: the
  radius, then for each of x, y, z the magnitude and the sign of the offset. \<open>rnd k\<close> is the
  result of call number \<open>k\<close>, so particle \<open>i\<close> uses \<open>rnd (7 * i)\<close> to \<open>rnd (7 * i + 6)\<close>.
\<close>

definition particleRadius :: "parameters \<Rightarrow> (nat \<Rightarrow> real) \<Rightarrow> nat \<Rightarrow> real" where
  "particleRadius p rnd i = rnd (7 * i) * radius p"

text \<open>The right-hand side of \<open>randomX\<close>, \<open>randomY\<close>, \<open>randomZ\<close>, from its two draws.\<close>

definition randomOffset :: "parameters \<Rightarrow> real \<Rightarrow> real \<Rightarrow> real \<Rightarrow> real" where
  "randomOffset p u s r =
     u ^ randomnessPower p * (if s < 0.5 then 1 else - 1) * randomness p * r"

definition randomX :: "parameters \<Rightarrow> (nat \<Rightarrow> real) \<Rightarrow> nat \<Rightarrow> real" where
  "randomX p rnd i = randomOffset p (rnd (7 * i + 1)) (rnd (7 * i + 2)) (particleRadius p rnd i)"

definition randomY :: "parameters \<Rightarrow> (nat \<Rightarrow> real) \<Rightarrow> nat \<Rightarrow> real" where
  "randomY p rnd i = randomOffset p (rnd (7 * i + 3)) (rnd (7 * i + 4)) (particleRadius p rnd i)"

definition randomZ :: "parameters \<Rightarrow> (nat \<Rightarrow> real) \<Rightarrow> nat \<Rightarrow> real" where
  "randomZ p rnd i = randomOffset p (rnd (7 * i + 5)) (rnd (7 * i + 6)) (particleRadius p rnd i)"

text \<open>
  The loop writing \<open>positions\<close>, a \<open>Float32Array\<close> of length \<open>count * 3\<close>, from particle
  \<open>i\<close> on. The colours, which go to a second array by the same loop, are left out.
\<close>

function positionsLoop :: "parameters \<Rightarrow> (nat \<Rightarrow> real) \<Rightarrow> nat \<Rightarrow> real list \<Rightarrow> real list" where
  "positionsLoop p rnd i positions =
     (if i < count p then
        (let i3 = i * 3;
             r = particleRadius p rnd i;
             spinAngle = r * spin p;
             branchAngle = (real (i mod branches p) / real (branches p)) * pi * 2;
             positions1 = positions[i3 := cos (branchAngle + spinAngle) * r + randomX p rnd i];
             positions2 = positions1[i3 + 1 := randomY p rnd i];
             positions3 = positions2[i3 + 2 := sin (branchAngle + spinAngle) * r + randomZ p rnd i]
         in positionsLoop p rnd (Suc i) positions3)
      else positions)"
  by pat_completeness auto
termination
  by (relation "measure (\<lambda>(p, rnd, i, positions). count p - i)") auto

declare positionsLoop.simps [simp del]

definition positions :: "parameters \<Rightarrow> (nat \<Rightarrow> real) \<Rightarrow> real list" where
  "positions p rnd = positionsLoop p rnd 0 (replicate (count p * 3) 0)"

text \<open>
  The mean of the absolute values of the \<open>3 * count\<close> offsets \<open>randomX\<close>, \<open>randomY\<close>,
  \<open>randomZ\<close> that the loop computes. The program does not compute it; it is the measure of
  arm tightness that the specification compares between exponents.
\<close>

definition meanAbsOffset :: "parameters \<Rightarrow> (nat \<Rightarrow> real) \<Rightarrow> real" where
  "meanAbsOffset p rnd =
     (\<Sum>i<count p. \<bar>randomX p rnd i\<bar> + \<bar>randomY p rnd i\<bar> + \<bar>randomZ p rnd i\<bar>)
       / real (3 * count p)"

section \<open>Properties of the motion controller\<close>

lemma velocityFrom_later:
  assumes "ptime p1 < now"
  shows "velocityFrom p1 w now =
     Finite (min (2 * sqrt ((lx w - px p1)\<^sup>2 + (ly w - py p1)\<^sup>2)
                    / ((now - ptime p1) / 1000)) 1.5)"
  using assms
  by (simp add: velocityFrom_def js_div_def Let_def power2_eq_square mult.commute)

lemma velocityFrom_earlier:
  assumes "now < ptime p1"
  shows "velocityFrom p1 w now =
     Finite (min (2 * sqrt ((lx w - px p1)\<^sup>2 + (ly w - py p1)\<^sup>2)
                    / ((now - ptime p1) / 1000)) 1.5)"
  using assms
  by (simp add: velocityFrom_def js_div_def Let_def power2_eq_square mult.commute)

lemma sqrt_4_100: "sqrt (4 / 100) = (2 / 10 :: real)"
proof -
  have "sqrt (4 / 100) = sqrt ((2 / 10) * (2 / 10) :: real)" by simp
  also have "\<dots> = \<bar>2 / 10 :: real\<bar>" by (rule real_sqrt_abs2)
  finally show ?thesis by simp
qed

text \<open>
  C1, as the code has it. The code has no check of the time difference. When a previous
  sample exists and the new wrist sample's time is not later than the stored one, the call
  throws nothing, but it is not a no-op: it overwrites the stored sample with the new one
  and calls \<open>onVelocityChange\<close>. When the new time is strictly earlier the emitted value is
  \<open>min (2 * distance / dt) 1.5\<close>, which is then at most 0.
\<close>

theorem nonincreasing_time_overwrites:
  assumes "detectorRan f" and "landmarks f = (wrist # rest) # hands"
    and "currentTime f \<le> ptime p1"
  shows "\<exists>v. predictWebcam (Some p1) f =
           Inr \<lparr>lastHandPos = Some \<lparr>px = lx wrist, py = ly wrist, ptime = currentTime f\<rparr>,
                emitted = Some v, requested = isActive f\<rparr> \<and>
           (currentTime f < ptime p1 \<longrightarrow>
              v = Finite (min (2 * sqrt ((lx wrist - px p1)\<^sup>2 + (ly wrist - py p1)\<^sup>2)
                                 / ((currentTime f - ptime p1) / 1000)) 1.5) \<and>
              min (2 * sqrt ((lx wrist - px p1)\<^sup>2 + (ly wrist - py p1)\<^sup>2)
                     / ((currentTime f - ptime p1) / 1000)) (1.5 :: real) \<le> 0)"
proof (cases "currentTime f < ptime p1")
  case True
  have "2 * sqrt ((lx wrist - px p1)\<^sup>2 + (ly wrist - py p1)\<^sup>2)
               / ((currentTime f - ptime p1) / 1000) \<le> 0"
    using True by (simp add: divide_nonneg_neg)
  then have "min (2 * sqrt ((lx wrist - px p1)\<^sup>2 + (ly wrist - py p1)\<^sup>2)
                     / ((currentTime f - ptime p1) / 1000)) (1.5 :: real) \<le> 0"
    by (rule min.coboundedI1)
  then show ?thesis
    using assms(1,2) True
    by (simp add: predictWebcam_def detectorRan_def velocityFrom_earlier)
next
  case False
  then show ?thesis
    using assms(1,2) by (simp add: predictWebcam_def detectorRan_def)
qed

text \<open>
  The theorem at a stored sample \<open>(0.1, 0.1)\<close> of time 100 and a new sample \<open>(0.3, 0.1)\<close> of
  time 50: the stored sample is replaced and \<open>-8\<close> is emitted.
\<close>

theorem nonincreasing_time_overwrites_witness:
  "predictWebcam (Some \<lparr>px = 0.1, py = 0.1, ptime = 100\<rparr>) (wristAt 0.3 0.1 50) =
     Inr \<lparr>lastHandPos = Some \<lparr>px = 0.3, py = 0.1, ptime = 50\<rparr>,
          emitted = Some (Finite (- 8)), requested = True\<rparr>"
  using nonincreasing_time_overwrites [of "wristAt 0.3 0.1 50" "\<lparr>lx = 0.3, ly = 0.1\<rparr>" "[]" "[]"
      "\<lparr>px = 0.1, py = 0.1, ptime = 100\<rparr>"]
  by (auto simp add: detectorRan_def wristAt_def sqrt_4_100)

text \<open>
  C1 as stated fails: with a stored sample \<open>(0.1, 0.1)\<close> of time 100 and a new sample
  \<open>(0.3, 0.1)\<close> of the same time, the stored sample changes and 1.5 is emitted
  (\<open>0.2 / 0\<close> is \<open>Infinity\<close>, which \<open>Math.min\<close> clamps).
\<close>

theorem nonincreasing_time_counterexample:
  "currentTime (wristAt 0.3 0.1 100) \<le> ptime \<lparr>px = 0.1, py = 0.1, ptime = 100\<rparr> \<and>
   predictWebcam (Some \<lparr>px = 0.1, py = 0.1, ptime = 100\<rparr>) (wristAt 0.3 0.1 100) =
     Inr \<lparr>lastHandPos = Some \<lparr>px = 0.3, py = 0.1, ptime = 100\<rparr>,
          emitted = Some (Finite 1.5), requested = True\<rparr>"
  by (simp add: predictWebcam_def wristAt_def velocityFrom_def js_div_def Let_def sqrt_4_100)

text \<open>
  C2. For a stored sample \<open>p1\<close> and a new wrist sample of a strictly later time, the call
  emits exactly \<open>min (2 * distance / dt) 1.5\<close>, with \<open>distance\<close> the Euclidean distance of
  the two positions and \<open>dt\<close> the time difference in seconds, and this value is not
  negative. The sequence \<open>(0.1, 0.1)\<close> at 0 ms, \<open>(0.3, 0.1)\<close> at 100 ms emits 1.5 once.
\<close>

theorem velocity_estimate:
  assumes "detectorRan f" and "landmarks f = (wrist # rest) # hands"
    and "ptime p1 < currentTime f"
  shows "(\<exists>out. predictWebcam (Some p1) f = Inr out \<and>
           emitted out =
             Some (Finite (min (2 * sqrt ((lx wrist - px p1)\<^sup>2 + (ly wrist - py p1)\<^sup>2)
                                  / ((currentTime f - ptime p1) / 1000)) 1.5)) \<and>
           0 \<le> min (2 * sqrt ((lx wrist - px p1)\<^sup>2 + (ly wrist - py p1)\<^sup>2)
                        / ((currentTime f - ptime p1) / 1000)) (1.5 :: real)) \<and>
         feed None [wristAt 0.1 0.1 0, wristAt 0.3 0.1 100] =
           Inr (Some \<lparr>px = 0.3, py = 0.1, ptime = 100\<rparr>, [Finite 1.5])"
proof
  show "\<exists>out. predictWebcam (Some p1) f = Inr out \<and>
           emitted out =
             Some (Finite (min (2 * sqrt ((lx wrist - px p1)\<^sup>2 + (ly wrist - py p1)\<^sup>2)
                                  / ((currentTime f - ptime p1) / 1000)) 1.5)) \<and>
           0 \<le> min (2 * sqrt ((lx wrist - px p1)\<^sup>2 + (ly wrist - py p1)\<^sup>2)
                        / ((currentTime f - ptime p1) / 1000)) (1.5 :: real)"
    using assms by (simp add: predictWebcam_def detectorRan_def velocityFrom_later)
  show "feed None [wristAt 0.1 0.1 0, wristAt 0.3 0.1 100] =
           Inr (Some \<lparr>px = 0.3, py = 0.1, ptime = 100\<rparr>, [Finite 1.5])"
    by (simp add: predictWebcam_def wristAt_def velocityFrom_def js_div_def Let_def
        sqrt_4_100)
qed

text \<open>
  The theorem at a stored sample \<open>(0.5, 0.5)\<close> of time 1000 and a new sample \<open>(0.7, 0.5)\<close>
  of time 2000: \<open>0.4\<close> is emitted.
\<close>

theorem velocity_estimate_witness:
  "\<exists>out. predictWebcam (Some \<lparr>px = 0.5, py = 0.5, ptime = 1000\<rparr>) (wristAt 0.7 0.5 2000)
            = Inr out
      \<and> emitted out = Some (Finite 0.4)"
  using velocity_estimate [of "wristAt 0.7 0.5 2000" "\<lparr>lx = 0.7, ly = 0.5\<rparr>" "[]" "[]"
      "\<lparr>px = 0.5, py = 0.5, ptime = 1000\<rparr>"]
  by (simp add: detectorRan_def wristAt_def sqrt_4_100)

text \<open>
  C5. When the detector reports no hand, the call emits the target 0 and clears the stored
  sample, whatever was stored. When a hand is reported and nothing is stored, the call
  emits nothing (\<open>onVelocityChange\<close> is not called) and stores the sample.
\<close>

theorem hand_absent_or_first_sample:
  assumes "detectorRan f"
  shows "(landmarks f = [] \<longrightarrow>
            predictWebcam prev f =
              Inr \<lparr>lastHandPos = None, emitted = Some (Finite 0), requested = isActive f\<rparr>) \<and>
         (landmarks f = (wrist # rest) # hands \<longrightarrow>
            predictWebcam None f =
              Inr \<lparr>lastHandPos = Some \<lparr>px = lx wrist, py = ly wrist, ptime = currentTime f\<rparr>,
                   emitted = None, requested = isActive f\<rparr>)"
  using assms by (simp add: predictWebcam_def detectorRan_def)

theorem hand_absent_or_first_sample_witness:
  "predictWebcam (Some \<lparr>px = 0.1, py = 0.1, ptime = 100\<rparr>) ((wristAt 0 0 133)\<lparr>landmarks := []\<rparr>) =
     Inr \<lparr>lastHandPos = None, emitted = Some (Finite 0), requested = True\<rparr> \<and>
   predictWebcam None (wristAt 0.3 0.1 166) =
     Inr \<lparr>lastHandPos = Some \<lparr>px = 0.3, py = 0.1, ptime = 166\<rparr>,
          emitted = None, requested = True\<rparr>"
  using hand_absent_or_first_sample [of "(wristAt 0 0 133)\<lparr>landmarks := []\<rparr>"
      "Some \<lparr>px = 0.1, py = 0.1, ptime = 100\<rparr>" "\<lparr>lx = 0, ly = 0\<rparr>" "[]" "[]"]
    hand_absent_or_first_sample [of "wristAt 0.3 0.1 166" None "\<lparr>lx = 0.3, ly = 0.1\<rparr>" "[]" "[]"]
  by (simp add: detectorRan_def wristAt_def)

section \<open>Properties of the smoother\<close>








section \<open>Properties of the session statistics\<close>

lemma effect_stats:
  "sessionStats (smoothedVelocityEffect now v a) =
     (if appState a = ACTIVE \<and> 0.05 < v then
        \<lparr>totalVelocity = totalVelocity (sessionStats a) + v,
         peakVelocity = max (peakVelocity (sessionStats a)) v,
         samples = samples (sessionStats a) + 1,
         startTime = startTime (sessionStats a)\<rparr>
      else sessionStats a)"
  by (simp add: smoothedVelocityEffect_def Let_def max_def)

lemma effect_appState: "appState (smoothedVelocityEffect now v a) = appState a"
  by (simp add: smoothedVelocityEffect_def Let_def)

lemma handleStart_stats:
  "sessionStats (handleStart True env t a) =
     \<lparr>totalVelocity = 0, peakVelocity = 0, samples = 0, startTime = t\<rparr>"
  by (simp add: handleStart_def)

lemma handleStart_appState: "appState (handleStart True env t a) = ACTIVE"
  by (simp add: handleStart_def)

lemma handleEndSession_args:
  "snd (handleEndSession dateNow a) =
     ((if samples (sessionStats a) > 0
       then totalVelocity (sessionStats a) / real (samples (sessionStats a)) else 0),
      peakVelocity (sessionStats a),
      (dateNow - startTime (sessionStats a)) / 1000)"
  by (simp add: handleEndSession_def Let_def)

text \<open>
  C6. The effect changes the statistics exactly when the application is active and the
  smoothed value is strictly above 0.05, so never when the value is at most 0.05; then
  it adds the value to the sum, adds one to the sample count and raises the peak to the
  value if the value exceeds it. At the end of the session the average passed on is the
  sum divided by the sample count if that is positive and 0 otherwise, with the peak and
  with the time since the start, in seconds.
\<close>

theorem stats_record_and_finalize:
  "(\<not> 0.05 < v \<longrightarrow> sessionStats (smoothedVelocityEffect now v a) = sessionStats a) \<and>
   (appState a \<noteq> ACTIVE \<longrightarrow> sessionStats (smoothedVelocityEffect now v a) = sessionStats a) \<and>
   (appState a = ACTIVE \<and> 0.05 < v \<longrightarrow>
      sessionStats (smoothedVelocityEffect now v a) =
        \<lparr>totalVelocity = totalVelocity (sessionStats a) + v,
         peakVelocity = (if v > peakVelocity (sessionStats a) then v
                         else peakVelocity (sessionStats a)),
         samples = samples (sessionStats a) + 1,
         startTime = startTime (sessionStats a)\<rparr>) \<and>
   snd (handleEndSession dateNow a) =
     ((if samples (sessionStats a) > 0
       then totalVelocity (sessionStats a) / real (samples (sessionStats a)) else 0),
      peakVelocity (sessionStats a),
      (dateNow - startTime (sessionStats a)) / 1000)"
  by (simp add: effect_stats handleEndSession_args max_def)

text \<open>
  The theorem on an active application with two samples of sum 0.9 and peak 0.5, started at
  time 1000: the value 0.7 is recorded, the value 0.05 is not, nothing is recorded when
  the application is not active, and ending the session at time 31000 passes on the
  average 0.45, the peak 0.5 and the duration 30.
\<close>

theorem stats_record_and_finalize_witness:
  "sessionStats (smoothedVelocityEffect 2 0.7
       (initialApp\<lparr>appState := ACTIVE,
          sessionStats := \<lparr>totalVelocity = 0.9, peakVelocity = 0.5, samples = 2,
                            startTime = 1000\<rparr>\<rparr>)) =
     \<lparr>totalVelocity = 1.6, peakVelocity = 0.7, samples = 3, startTime = 1000\<rparr> \<and>
   sessionStats (smoothedVelocityEffect 2 0.05
       (initialApp\<lparr>appState := ACTIVE,
          sessionStats := \<lparr>totalVelocity = 0.9, peakVelocity = 0.5, samples = 2,
                            startTime = 1000\<rparr>\<rparr>)) =
     \<lparr>totalVelocity = 0.9, peakVelocity = 0.5, samples = 2, startTime = 1000\<rparr> \<and>
   sessionStats (smoothedVelocityEffect 2 0.7 initialApp) = sessionStats initialApp \<and>
   snd (handleEndSession 31000
       (initialApp\<lparr>appState := ACTIVE,
          sessionStats := \<lparr>totalVelocity = 0.9, peakVelocity = 0.5, samples = 2,
                            startTime = 1000\<rparr>\<rparr>)) = (0.45, 0.5, 30)"
  using stats_record_and_finalize [of "0.7" 2
      "initialApp\<lparr>appState := ACTIVE,
          sessionStats := \<lparr>totalVelocity = 0.9, peakVelocity = 0.5, samples = 2,
                            startTime = 1000\<rparr>\<rparr>" 31000]
    stats_record_and_finalize [of "0.05" 2
      "initialApp\<lparr>appState := ACTIVE,
          sessionStats := \<lparr>totalVelocity = 0.9, peakVelocity = 0.5, samples = 2,
                            startTime = 1000\<rparr>\<rparr>" 31000]
    stats_record_and_finalize [of "0.7" 2 initialApp 31000]
  by (simp add: initialApp_def)

section \<open>Properties of the statistics in double arithmetic\<close>

lemma roundTiesToEven_error: "\<bar>of_int (roundTiesToEven y) - y\<bar> \<le> 1 / 2"
proof -
  have "of_int \<lfloor>y\<rfloor> \<le> y" and "y < of_int \<lfloor>y\<rfloor> + 1" by linarith+
  then show ?thesis
    by (auto simp add: roundTiesToEven_def Let_def abs_le_iff)
qed

lemma roundDouble_error: "\<bar>roundDouble x - x\<bar> \<le> \<bar>x\<bar> / 2 ^ 53"
proof (cases "x = 0")
  case True
  then show ?thesis by (simp add: roundDouble_def)
next
  case False
  define k where "k = \<lfloor>log 2 \<bar>x\<bar>\<rfloor>"
  define s :: real where "s = 2 powr of_int (k - 52)"
  have spos: "0 < s" by (simp add: s_def)
  have "of_int k \<le> log 2 \<bar>x\<bar>" by (simp add: k_def)
  then have "2 powr of_int k \<le> 2 powr log 2 \<bar>x\<bar>" by simp
  then have low: "2 powr of_int k \<le> \<bar>x\<bar>" using False by simp
  have sk: "s = 2 powr of_int k / 2 ^ 52"
    by (simp add: s_def powr_diff)
  have rd: "roundDouble x = of_int (roundTiesToEven (x / s)) * s"
    using False by (simp add: roundDouble_def Let_def k_def s_def)
  have "roundDouble x - x = (of_int (roundTiesToEven (x / s)) - x / s) * s"
    using spos by (simp add: rd field_simps)
  then have "\<bar>roundDouble x - x\<bar> = \<bar>of_int (roundTiesToEven (x / s)) - x / s\<bar> * s"
    using spos by (simp add: abs_mult)
  also have "\<dots> \<le> (1 / 2) * s"
    using spos roundTiesToEven_error [of "x / s"] by (intro mult_right_mono) simp_all
  also have "\<dots> = 2 powr of_int k / 2 ^ 53" by (simp add: sk)
  also have "\<dots> \<le> \<bar>x\<bar> / 2 ^ 53" using low by (simp add: divide_right_mono)
  finally show ?thesis .
qed

lemma roundDouble_pos_bounds:
  assumes "0 < x"
  shows "x * (1 - unitRoundoff) \<le> roundDouble x" and "roundDouble x \<le> x * (1 + unitRoundoff)"
proof -
  have e: "\<bar>roundDouble x - x\<bar> \<le> x * unitRoundoff"
    using roundDouble_error [of x] assms by (simp add: unitRoundoff_def)
  from e have "x - roundDouble x \<le> x * unitRoundoff" by (simp only: abs_le_iff) simp
  then show "x * (1 - unitRoundoff) \<le> roundDouble x" by (simp add: algebra_simps)
  from e have "roundDouble x - x \<le> x * unitRoundoff" by (simp only: abs_le_iff)
  then show "roundDouble x \<le> x * (1 + unitRoundoff)" by (simp add: algebra_simps)
qed

lemma roundDouble_scale:
  assumes "0 < x" and "s = 2 powr of_int (k - 52)" and "2 ^ 52 * s \<le> x" and "x < 2 ^ 53 * s"
  shows "roundDouble x = of_int (roundTiesToEven (x / s)) * s"
proof -
  have "2 powr of_int k = 2 ^ 52 * s"
    by (simp add: assms(2) powr_diff)
  moreover have "2 powr of_int (k + 1) = 2 ^ 53 * s"
    by (simp add: assms(2) powr_diff powr_add)
  ultimately have "\<lfloor>log 2 \<bar>x\<bar>\<rfloor> = k"
    using assms(1,3,4) by (simp add: floor_log_eq_powr_iff)
  then show ?thesis
    using assms(1) by (simp add: roundDouble_def Let_def assms(2))
qed

text \<open>
  The roundings that the two sessions below go through, each with the exact result it
  rounds.
\<close>

lemma roundDouble_deadband:
  assumes "x = 1 / 20"
  shows "roundDouble x = 3602879701896397 / 72057594037927936"
proof -
  have "roundDouble (1 / 20) =
          of_int (roundTiesToEven ((1 / 20) / (1 / 2 ^ 57))) * (1 / 2 ^ 57)"
    by (rule roundDouble_scale [where k = "- 5"]) (simp_all add: powr_neg_numeral)
  also have "roundTiesToEven ((1 / 20) / (1 / 2 ^ 57)) = 7205759403792794"
    by (simp add: roundTiesToEven_def Let_def)
  finally show ?thesis by (simp add: assms)
qed

lemma roundDouble_tenth:
  assumes "x = 1 / 10"
  shows "roundDouble x = 3602879701896397 / 36028797018963968"
proof -
  have "roundDouble (1 / 10) =
          of_int (roundTiesToEven ((1 / 10) / (1 / 2 ^ 56))) * (1 / 2 ^ 56)"
    by (rule roundDouble_scale [where k = "- 4"]) (simp_all add: powr_neg_numeral)
  also have "roundTiesToEven ((1 / 10) / (1 / 2 ^ 56)) = 7205759403792794"
    by (simp add: roundTiesToEven_def Let_def)
  finally show ?thesis by (simp add: assms)
qed

lemma roundDouble_above_deadband:
  assumes "x = 5000000000000001 / 100000000000000000"
  shows "roundDouble x = 7205759403792795 / 144115188075855872"
proof -
  have "roundDouble (5000000000000001 / 100000000000000000) =
          of_int (roundTiesToEven ((5000000000000001 / 100000000000000000) / (1 / 2 ^ 57))) * (1 / 2 ^ 57)"
    by (rule roundDouble_scale [where k = "- 5"]) (simp_all add: powr_neg_numeral)
  also have "roundTiesToEven ((5000000000000001 / 100000000000000000) / (1 / 2 ^ 57)) = 7205759403792795"
    by (simp add: roundTiesToEven_def Let_def)
  finally show ?thesis by (simp add: assms)
qed

lemma roundDouble_tenths_sum1:
  assumes "x = 3602879701896397 / 36028797018963968"
  shows "roundDouble x = 3602879701896397 / 36028797018963968"
proof -
  have "roundDouble (3602879701896397 / 36028797018963968) =
          of_int (roundTiesToEven ((3602879701896397 / 36028797018963968) / (1 / 2 ^ 56))) * (1 / 2 ^ 56)"
    by (rule roundDouble_scale [where k = "- 4"]) (simp_all add: powr_neg_numeral)
  also have "roundTiesToEven ((3602879701896397 / 36028797018963968) / (1 / 2 ^ 56)) = 7205759403792794"
    by (simp add: roundTiesToEven_def Let_def)
  finally show ?thesis by (simp add: assms)
qed

lemma roundDouble_tenths_sum2:
  assumes "x = 3602879701896397 / 18014398509481984"
  shows "roundDouble x = 3602879701896397 / 18014398509481984"
proof -
  have "roundDouble (3602879701896397 / 18014398509481984) =
          of_int (roundTiesToEven ((3602879701896397 / 18014398509481984) / (1 / 2 ^ 55))) * (1 / 2 ^ 55)"
    by (rule roundDouble_scale [where k = "- 3"]) (simp_all add: powr_neg_numeral)
  also have "roundTiesToEven ((3602879701896397 / 18014398509481984) / (1 / 2 ^ 55)) = 7205759403792794"
    by (simp add: roundTiesToEven_def Let_def)
  finally show ?thesis by (simp add: assms)
qed

lemma roundDouble_tenths_sum3:
  assumes "x = 10808639105689191 / 36028797018963968"
  shows "roundDouble x = 1351079888211149 / 4503599627370496"
proof -
  have "roundDouble (10808639105689191 / 36028797018963968) =
          of_int (roundTiesToEven ((10808639105689191 / 36028797018963968) / (1 / 2 ^ 54))) * (1 / 2 ^ 54)"
    by (rule roundDouble_scale [where k = "- 2"]) (simp_all add: powr_neg_numeral)
  also have "roundTiesToEven ((10808639105689191 / 36028797018963968) / (1 / 2 ^ 54)) = 5404319552844596"
    by (simp add: roundTiesToEven_def Let_def)
  finally show ?thesis by (simp add: assms)
qed

lemma roundDouble_tenths_average:
  assumes "x = 1351079888211149 / 13510798882111488"
  shows "roundDouble x = 7205759403792795 / 72057594037927936"
proof -
  have "roundDouble (1351079888211149 / 13510798882111488) =
          of_int (roundTiesToEven ((1351079888211149 / 13510798882111488) / (1 / 2 ^ 56))) * (1 / 2 ^ 56)"
    by (rule roundDouble_scale [where k = "- 4"]) (simp_all add: powr_neg_numeral)
  also have "roundTiesToEven ((1351079888211149 / 13510798882111488) / (1 / 2 ^ 56)) = 7205759403792795"
    by (simp add: roundTiesToEven_def Let_def)
  finally show ?thesis by (simp add: assms)
qed

lemma roundDouble_sevenfold_sum1:
  assumes "x = 7205759403792795 / 144115188075855872"
  shows "roundDouble x = 7205759403792795 / 144115188075855872"
proof -
  have "roundDouble (7205759403792795 / 144115188075855872) =
          of_int (roundTiesToEven ((7205759403792795 / 144115188075855872) / (1 / 2 ^ 57))) * (1 / 2 ^ 57)"
    by (rule roundDouble_scale [where k = "- 5"]) (simp_all add: powr_neg_numeral)
  also have "roundTiesToEven ((7205759403792795 / 144115188075855872) / (1 / 2 ^ 57)) = 7205759403792795"
    by (simp add: roundTiesToEven_def Let_def)
  finally show ?thesis by (simp add: assms)
qed

lemma roundDouble_sevenfold_sum2:
  assumes "x = 7205759403792795 / 72057594037927936"
  shows "roundDouble x = 7205759403792795 / 72057594037927936"
proof -
  have "roundDouble (7205759403792795 / 72057594037927936) =
          of_int (roundTiesToEven ((7205759403792795 / 72057594037927936) / (1 / 2 ^ 56))) * (1 / 2 ^ 56)"
    by (rule roundDouble_scale [where k = "- 4"]) (simp_all add: powr_neg_numeral)
  also have "roundTiesToEven ((7205759403792795 / 72057594037927936) / (1 / 2 ^ 56)) = 7205759403792795"
    by (simp add: roundTiesToEven_def Let_def)
  finally show ?thesis by (simp add: assms)
qed

lemma roundDouble_sevenfold_sum3:
  assumes "x = 21617278211378385 / 144115188075855872"
  shows "roundDouble x = 1351079888211149 / 9007199254740992"
proof -
  have "roundDouble (21617278211378385 / 144115188075855872) =
          of_int (roundTiesToEven ((21617278211378385 / 144115188075855872) / (1 / 2 ^ 55))) * (1 / 2 ^ 55)"
    by (rule roundDouble_scale [where k = "- 3"]) (simp_all add: powr_neg_numeral)
  also have "roundTiesToEven ((21617278211378385 / 144115188075855872) / (1 / 2 ^ 55)) = 5404319552844596"
    by (simp add: roundTiesToEven_def Let_def)
  finally show ?thesis by (simp add: assms)
qed

lemma roundDouble_sevenfold_sum4:
  assumes "x = 28823037615171179 / 144115188075855872"
  shows "roundDouble x = 7205759403792795 / 36028797018963968"
proof -
  have "roundDouble (28823037615171179 / 144115188075855872) =
          of_int (roundTiesToEven ((28823037615171179 / 144115188075855872) / (1 / 2 ^ 55))) * (1 / 2 ^ 55)"
    by (rule roundDouble_scale [where k = "- 3"]) (simp_all add: powr_neg_numeral)
  also have "roundTiesToEven ((28823037615171179 / 144115188075855872) / (1 / 2 ^ 55)) = 7205759403792795"
    by (simp add: roundTiesToEven_def Let_def)
  finally show ?thesis by (simp add: assms)
qed

lemma roundDouble_sevenfold_sum5:
  assumes "x = 36028797018963975 / 144115188075855872"
  shows "roundDouble x = 4503599627370497 / 18014398509481984"
proof -
  have "roundDouble (36028797018963975 / 144115188075855872) =
          of_int (roundTiesToEven ((36028797018963975 / 144115188075855872) / (1 / 2 ^ 54))) * (1 / 2 ^ 54)"
    by (rule roundDouble_scale [where k = "- 2"]) (simp_all add: powr_neg_numeral)
  also have "roundTiesToEven ((36028797018963975 / 144115188075855872) / (1 / 2 ^ 54)) = 4503599627370497"
    by (simp add: roundTiesToEven_def Let_def)
  finally show ?thesis by (simp add: assms)
qed

lemma roundDouble_sevenfold_sum6:
  assumes "x = 43234556422756771 / 144115188075855872"
  shows "roundDouble x = 1351079888211149 / 4503599627370496"
proof -
  have "roundDouble (43234556422756771 / 144115188075855872) =
          of_int (roundTiesToEven ((43234556422756771 / 144115188075855872) / (1 / 2 ^ 54))) * (1 / 2 ^ 54)"
    by (rule roundDouble_scale [where k = "- 2"]) (simp_all add: powr_neg_numeral)
  also have "roundTiesToEven ((43234556422756771 / 144115188075855872) / (1 / 2 ^ 54)) = 5404319552844596"
    by (simp add: roundTiesToEven_def Let_def)
  finally show ?thesis by (simp add: assms)
qed

lemma roundDouble_sevenfold_sum7:
  assumes "x = 50440315826549563 / 144115188075855872"
  shows "roundDouble x = 6305039478318695 / 18014398509481984"
proof -
  have "roundDouble (50440315826549563 / 144115188075855872) =
          of_int (roundTiesToEven ((50440315826549563 / 144115188075855872) / (1 / 2 ^ 54))) * (1 / 2 ^ 54)"
    by (rule roundDouble_scale [where k = "- 2"]) (simp_all add: powr_neg_numeral)
  also have "roundTiesToEven ((50440315826549563 / 144115188075855872) / (1 / 2 ^ 54)) = 6305039478318695"
    by (simp add: roundTiesToEven_def Let_def)
  finally show ?thesis by (simp add: assms)
qed

lemma roundDouble_sevenfold_average:
  assumes "x = 6305039478318695 / 126100789566373888"
  shows "roundDouble x = 3602879701896397 / 72057594037927936"
proof -
  have "roundDouble (6305039478318695 / 126100789566373888) =
          of_int (roundTiesToEven ((6305039478318695 / 126100789566373888) / (1 / 2 ^ 57))) * (1 / 2 ^ 57)"
    by (rule roundDouble_scale [where k = "- 5"]) (simp_all add: powr_neg_numeral)
  also have "roundTiesToEven ((6305039478318695 / 126100789566373888) / (1 / 2 ^ 57)) = 7205759403792794"
    by (simp add: roundTiesToEven_def Let_def)
  finally show ?thesis by (simp add: assms)
qed

lemmas roundDouble_values = roundDouble_deadband roundDouble_tenth roundDouble_above_deadband roundDouble_tenths_sum1 roundDouble_tenths_sum2 roundDouble_tenths_sum3 roundDouble_tenths_average roundDouble_sevenfold_sum1 roundDouble_sevenfold_sum2 roundDouble_sevenfold_sum3 roundDouble_sevenfold_sum4 roundDouble_sevenfold_sum5 roundDouble_sevenfold_sum6 roundDouble_sevenfold_sum7 roundDouble_sevenfold_average

lemma double_literals:
  "roundDouble 0.05 = 3602879701896397 / 72057594037927936"
  "roundDouble 0.1 = 3602879701896397 / 36028797018963968"
  "roundDouble 0.05000000000000001 = 7205759403792795 / 144115188075855872"
  by (simp_all add: roundDouble_values)

lemma effectDouble_stats:
  "sessionStats (smoothedVelocityEffectDouble now v a) =
     (if appState a = ACTIVE \<and> roundDouble 0.05 < v then
        \<lparr>totalVelocity = roundDouble (totalVelocity (sessionStats a) + v),
         peakVelocity = max (peakVelocity (sessionStats a)) v,
         samples = samples (sessionStats a) + 1,
         startTime = startTime (sessionStats a)\<rparr>
      else sessionStats a)"
  by (simp add: smoothedVelocityEffectDouble_def Let_def max_def)

lemma effectDouble_appState: "appState (smoothedVelocityEffectDouble now v a) = appState a"
  by (simp add: smoothedVelocityEffectDouble_def Let_def)

lemma handleEndSessionDouble_args:
  "snd (handleEndSessionDouble dateNow a) =
     ((if samples (sessionStats a) > 0
       then roundDouble (totalVelocity (sessionStats a) / real (samples (sessionStats a)))
       else 0),
      peakVelocity (sessionStats a),
      roundDouble (roundDouble (dateNow - startTime (sessionStats a)) / 1000))"
  by (simp add: handleEndSessionDouble_def Let_def)

lemma unitRoundoff_bounds: "0 < unitRoundoff" "unitRoundoff < 1"
  by (simp_all add: unitRoundoff_def)

lemma deadband_positive: "0 < roundDouble 0.05"
  unfolding double_literals by simp

lemma statsInvDouble_effect:
  assumes "statsInvDouble (sessionStats a)"
  shows "statsInvDouble (sessionStats (smoothedVelocityEffectDouble now v a))"
proof (cases "appState a = ACTIVE \<and> roundDouble 0.05 < v")
  case False
  then have "sessionStats (smoothedVelocityEffectDouble now v a) = sessionStats a"
    by (simp only: effectDouble_stats if_False)
  then show ?thesis using assms by simp
next
  case True
  define c where "c = roundDouble 0.05"
  define S where "S = totalVelocity (sessionStats a)"
  define P where "P = peakVelocity (sessionStats a)"
  define n where "n = samples (sessionStats a)"
  define lo where "lo = 1 - unitRoundoff"
  define hi where "hi = 1 + unitRoundoff"
  have cpos: "0 < c" unfolding c_def by (rule deadband_positive)
  have vc: "c < v" using True by (simp add: c_def)
  have lo01: "0 < lo" "lo \<le> 1" and hi1: "1 \<le> hi"
    using unitRoundoff_bounds by (simp_all add: lo_def hi_def)
  have lon: "0 \<le> lo ^ n" "lo ^ n \<le> 1" and hin: "1 \<le> hi ^ n"
    using lo01 hi1 by (simp_all add: power_le_one)
  from assms have low: "c * real n * lo ^ n \<le> S"
    and high: "S \<le> P * real n * hi ^ n" and P0: "0 \<le> P"
    by (simp_all add: statsInvDouble_def c_def S_def P_def n_def lo_def hi_def)
  define P' where "P' = max P v"
  have P'0: "0 \<le> P'" and PP': "P \<le> P'" and vP': "v \<le> P'"
    using P0 by (simp_all add: P'_def)
  have "c * lo ^ n \<le> c * 1"
    using cpos lon by (intro mult_left_mono) simp_all
  then have "c * real (n + 1) * lo ^ n \<le> c * real n * lo ^ n + c"
    by (simp add: algebra_simps)
  also have "\<dots> < S + v" using low vc by simp
  finally have sumlow: "c * real (n + 1) * lo ^ n < S + v" .
  then have sumpos: "0 < S + v"
    using cpos lon by (smt (verit) mult_nonneg_nonneg of_nat_0_le_iff less_eq_real_def)
  have "(c * real (n + 1) * lo ^ n) * lo < (S + v) * lo"
    using sumlow lo01 by (intro mult_strict_right_mono)
  also have "\<dots> \<le> roundDouble (S + v)"
    using roundDouble_pos_bounds(1) [OF sumpos] by (simp add: lo_def)
  finally have newlow: "c * real (n + 1) * lo ^ (n + 1) < roundDouble (S + v)"
    by (simp add: algebra_simps)
  have "P * real n * hi ^ n \<le> P' * real n * hi ^ n"
    using PP' hin by (intro mult_right_mono) simp_all
  moreover have "v \<le> P' * hi ^ n"
  proof -
    have "P' * 1 \<le> P' * hi ^ n" using P'0 hin by (intro mult_left_mono)
    with vP' show ?thesis by simp
  qed
  ultimately have "S + v \<le> P' * real n * hi ^ n + P' * hi ^ n" using high by simp
  then have sumhigh: "S + v \<le> P' * real (n + 1) * hi ^ n" by (simp add: algebra_simps)
  have "roundDouble (S + v) \<le> (S + v) * hi"
    using roundDouble_pos_bounds(2) [OF sumpos] by (simp add: hi_def)
  also have "\<dots> \<le> (P' * real (n + 1) * hi ^ n) * hi"
    using sumhigh hi1 by (intro mult_right_mono) simp_all
  finally have newhigh: "roundDouble (S + v) \<le> P' * real (n + 1) * hi ^ (n + 1)"
    by (simp add: algebra_simps)
  have "sessionStats (smoothedVelocityEffectDouble now v a) =
          \<lparr>totalVelocity = roundDouble (S + v), peakVelocity = P', samples = n + 1,
           startTime = startTime (sessionStats a)\<rparr>"
    using True by (simp add: effectDouble_stats S_def P'_def P_def n_def)
  then show ?thesis
    using newlow newhigh P'0
    unfolding statsInvDouble_def c_def [symmetric] lo_def [symmetric] hi_def [symmetric]
    by simp
qed

lemma statsInvDouble_effects:
  "statsInvDouble (sessionStats a) \<Longrightarrow> statsInvDouble (sessionStats (effectsDouble vs a))"
  by (induction vs arbitrary: a) (auto simp: statsInvDouble_effect)

lemma statsInvDouble_start: "statsInvDouble (sessionStats (handleStart True env t a))"
  by (simp add: handleStart_stats statsInvDouble_def)

text \<open>
  C10, as the code has it. Start a session, run the effect on any sequence of smoothed
  values, end the session. If the sample count \<open>n\<close> is then positive, the average passed
  on is within the accumulated rounding error of the range from the deadband to the
  peak: it is strictly above \<open>0.05 * (1 - 2 ^ -53) ^ (n + 1)\<close> and at most
  \<open>peak * (1 + 2 ^ -53) ^ (n + 1)\<close>, with 0.05 the double of that name.
\<close>

theorem average_within_rounding:
  assumes "0 < samples (sessionStats (effectsDouble vs (handleStart True env t0 a)))"
  shows "\<exists>a1 avgSpeed peak duration.
           handleEndSessionDouble t1 (effectsDouble vs (handleStart True env t0 a))
             = (a1, avgSpeed, peak, duration) \<and>
           peak = peakVelocity (sessionStats (effectsDouble vs (handleStart True env t0 a))) \<and>
           roundDouble 0.05 * (1 - unitRoundoff)
               ^ (samples (sessionStats (effectsDouble vs (handleStart True env t0 a))) + 1)
             < avgSpeed \<and>
           avgSpeed \<le> peak * (1 + unitRoundoff)
               ^ (samples (sessionStats (effectsDouble vs (handleStart True env t0 a))) + 1)"
proof -
  let ?a = "effectsDouble vs (handleStart True env t0 a)"
  define c where "c = roundDouble 0.05"
  define S where "S = totalVelocity (sessionStats ?a)"
  define P where "P = peakVelocity (sessionStats ?a)"
  define n where "n = samples (sessionStats ?a)"
  define lo where "lo = 1 - unitRoundoff"
  define hi where "hi = 1 + unitRoundoff"
  have inv: "statsInvDouble (sessionStats ?a)"
    by (rule statsInvDouble_effects) (rule statsInvDouble_start)
  have npos: "0 < real n" using assms by (simp add: n_def)
  have cpos: "0 < c" unfolding c_def by (rule deadband_positive)
  have lo01: "0 < lo" and hi1: "1 \<le> hi"
    using unitRoundoff_bounds by (simp_all add: lo_def hi_def)
  from inv assms have low: "c * real n * lo ^ n < S" and high: "S \<le> P * real n * hi ^ n"
    by (simp_all add: statsInvDouble_def c_def S_def P_def n_def lo_def hi_def)
  have "0 < c * real n * lo ^ n" using cpos npos lo01 by simp
  with low have Spos: "0 < S" by simp
  then have qpos: "0 < S / real n" using npos by simp
  have qlow: "c * lo ^ n < S / real n"
    using low npos by (simp add: field_simps)
  have qhigh: "S / real n \<le> P * hi ^ n"
    using high npos by (simp add: field_simps)
  have "(c * lo ^ n) * lo < (S / real n) * lo"
    using qlow lo01 by (intro mult_strict_right_mono)
  also have "\<dots> \<le> roundDouble (S / real n)"
    using roundDouble_pos_bounds(1) [OF qpos] by (simp add: lo_def)
  finally have r1: "c * lo ^ (n + 1) < roundDouble (S / real n)" by (simp add: algebra_simps)
  have "roundDouble (S / real n) \<le> (S / real n) * hi"
    using roundDouble_pos_bounds(2) [OF qpos] by (simp add: hi_def)
  also have "\<dots> \<le> (P * hi ^ n) * hi"
    using qhigh hi1 by (intro mult_right_mono) simp_all
  finally have r2: "roundDouble (S / real n) \<le> P * hi ^ (n + 1)" by (simp add: algebra_simps)
  have "snd (handleEndSessionDouble t1 ?a) =
      (roundDouble (S / real n), P,
       roundDouble (roundDouble (t1 - startTime (sessionStats ?a)) / 1000))"
    using assms by (simp add: handleEndSessionDouble_args S_def P_def n_def)
  then have "handleEndSessionDouble t1 ?a =
      (fst (handleEndSessionDouble t1 ?a), roundDouble (S / real n), P,
       roundDouble (roundDouble (t1 - startTime (sessionStats ?a)) / 1000))"
    by (metis prod.collapse)
  with r1 r2 show ?thesis
    unfolding c_def lo_def hi_def n_def P_def by blast
qed

lemma tenths_stats:
  "sessionStats (effectsDouble [(1, 3602879701896397 / 36028797018963968), (2, 3602879701896397 / 36028797018963968), (3, 3602879701896397 / 36028797018963968)]
       (handleStart True testPlatform 1000 initialApp)) =
     \<lparr>totalVelocity = 1351079888211149 / 4503599627370496, peakVelocity = 3602879701896397 / 36028797018963968,
      samples = 3, startTime = 1000\<rparr>"
proof -
  have s1: "sessionStats
       (smoothedVelocityEffectDouble 1 (3602879701896397 / 36028797018963968)
        (handleStart True testPlatform 1000 initialApp)) =
       \<lparr>totalVelocity = 3602879701896397 / 36028797018963968, peakVelocity = 3602879701896397 / 36028797018963968,
         samples = 1, startTime = 1000\<rparr>"
    by (subst effectDouble_stats)
      (simp add: handleStart_stats handleStart_appState effectDouble_appState
        roundDouble_values)
  have s2: "sessionStats
       (smoothedVelocityEffectDouble 2 (3602879701896397 / 36028797018963968)
        (smoothedVelocityEffectDouble 1 (3602879701896397 / 36028797018963968)
        (handleStart True testPlatform 1000 initialApp))) =
       \<lparr>totalVelocity = 3602879701896397 / 18014398509481984, peakVelocity = 3602879701896397 / 36028797018963968,
         samples = 2, startTime = 1000\<rparr>"
    by (subst effectDouble_stats)
      (simp add: s1 handleStart_stats handleStart_appState effectDouble_appState
        roundDouble_values)
  have s3: "sessionStats
       (smoothedVelocityEffectDouble 3 (3602879701896397 / 36028797018963968)
        (smoothedVelocityEffectDouble 2 (3602879701896397 / 36028797018963968)
        (smoothedVelocityEffectDouble 1 (3602879701896397 / 36028797018963968)
        (handleStart True testPlatform 1000 initialApp)))) =
       \<lparr>totalVelocity = 1351079888211149 / 4503599627370496, peakVelocity = 3602879701896397 / 36028797018963968,
         samples = 3, startTime = 1000\<rparr>"
    by (subst effectDouble_stats)
      (simp add: s2 handleStart_stats handleStart_appState effectDouble_appState
        roundDouble_values)
  show ?thesis
    unfolding effectsDouble.simps by (rule s3)
qed

lemma sevenfold_stats:
  "sessionStats (effectsDouble [(1, 7205759403792795 / 144115188075855872), (2, 7205759403792795 / 144115188075855872), (3, 7205759403792795 / 144115188075855872), (4, 7205759403792795 / 144115188075855872), (5, 7205759403792795 / 144115188075855872), (6, 7205759403792795 / 144115188075855872), (7, 7205759403792795 / 144115188075855872)]
       (handleStart True testPlatform 1000 initialApp)) =
     \<lparr>totalVelocity = 6305039478318695 / 18014398509481984, peakVelocity = 7205759403792795 / 144115188075855872,
      samples = 7, startTime = 1000\<rparr>"
proof -
  have s1: "sessionStats
       (smoothedVelocityEffectDouble 1 (7205759403792795 / 144115188075855872)
        (handleStart True testPlatform 1000 initialApp)) =
       \<lparr>totalVelocity = 7205759403792795 / 144115188075855872, peakVelocity = 7205759403792795 / 144115188075855872,
         samples = 1, startTime = 1000\<rparr>"
    by (subst effectDouble_stats)
      (simp add: handleStart_stats handleStart_appState effectDouble_appState
        roundDouble_values)
  have s2: "sessionStats
       (smoothedVelocityEffectDouble 2 (7205759403792795 / 144115188075855872)
        (smoothedVelocityEffectDouble 1 (7205759403792795 / 144115188075855872)
        (handleStart True testPlatform 1000 initialApp))) =
       \<lparr>totalVelocity = 7205759403792795 / 72057594037927936, peakVelocity = 7205759403792795 / 144115188075855872,
         samples = 2, startTime = 1000\<rparr>"
    by (subst effectDouble_stats)
      (simp add: s1 handleStart_stats handleStart_appState effectDouble_appState
        roundDouble_values)
  have s3: "sessionStats
       (smoothedVelocityEffectDouble 3 (7205759403792795 / 144115188075855872)
        (smoothedVelocityEffectDouble 2 (7205759403792795 / 144115188075855872)
        (smoothedVelocityEffectDouble 1 (7205759403792795 / 144115188075855872)
        (handleStart True testPlatform 1000 initialApp)))) =
       \<lparr>totalVelocity = 1351079888211149 / 9007199254740992, peakVelocity = 7205759403792795 / 144115188075855872,
         samples = 3, startTime = 1000\<rparr>"
    by (subst effectDouble_stats)
      (simp add: s2 handleStart_stats handleStart_appState effectDouble_appState
        roundDouble_values)
  have s4: "sessionStats
       (smoothedVelocityEffectDouble 4 (7205759403792795 / 144115188075855872)
        (smoothedVelocityEffectDouble 3 (7205759403792795 / 144115188075855872)
        (smoothedVelocityEffectDouble 2 (7205759403792795 / 144115188075855872)
        (smoothedVelocityEffectDouble 1 (7205759403792795 / 144115188075855872)
        (handleStart True testPlatform 1000 initialApp))))) =
       \<lparr>totalVelocity = 7205759403792795 / 36028797018963968, peakVelocity = 7205759403792795 / 144115188075855872,
         samples = 4, startTime = 1000\<rparr>"
    by (subst effectDouble_stats)
      (simp add: s3 handleStart_stats handleStart_appState effectDouble_appState
        roundDouble_values)
  have s5: "sessionStats
       (smoothedVelocityEffectDouble 5 (7205759403792795 / 144115188075855872)
        (smoothedVelocityEffectDouble 4 (7205759403792795 / 144115188075855872)
        (smoothedVelocityEffectDouble 3 (7205759403792795 / 144115188075855872)
        (smoothedVelocityEffectDouble 2 (7205759403792795 / 144115188075855872)
        (smoothedVelocityEffectDouble 1 (7205759403792795 / 144115188075855872)
        (handleStart True testPlatform 1000 initialApp)))))) =
       \<lparr>totalVelocity = 4503599627370497 / 18014398509481984, peakVelocity = 7205759403792795 / 144115188075855872,
         samples = 5, startTime = 1000\<rparr>"
    by (subst effectDouble_stats)
      (simp add: s4 handleStart_stats handleStart_appState effectDouble_appState
        roundDouble_values)
  have s6: "sessionStats
       (smoothedVelocityEffectDouble 6 (7205759403792795 / 144115188075855872)
        (smoothedVelocityEffectDouble 5 (7205759403792795 / 144115188075855872)
        (smoothedVelocityEffectDouble 4 (7205759403792795 / 144115188075855872)
        (smoothedVelocityEffectDouble 3 (7205759403792795 / 144115188075855872)
        (smoothedVelocityEffectDouble 2 (7205759403792795 / 144115188075855872)
        (smoothedVelocityEffectDouble 1 (7205759403792795 / 144115188075855872)
        (handleStart True testPlatform 1000 initialApp))))))) =
       \<lparr>totalVelocity = 1351079888211149 / 4503599627370496, peakVelocity = 7205759403792795 / 144115188075855872,
         samples = 6, startTime = 1000\<rparr>"
    by (subst effectDouble_stats)
      (simp add: s5 handleStart_stats handleStart_appState effectDouble_appState
        roundDouble_values)
  have s7: "sessionStats
       (smoothedVelocityEffectDouble 7 (7205759403792795 / 144115188075855872)
        (smoothedVelocityEffectDouble 6 (7205759403792795 / 144115188075855872)
        (smoothedVelocityEffectDouble 5 (7205759403792795 / 144115188075855872)
        (smoothedVelocityEffectDouble 4 (7205759403792795 / 144115188075855872)
        (smoothedVelocityEffectDouble 3 (7205759403792795 / 144115188075855872)
        (smoothedVelocityEffectDouble 2 (7205759403792795 / 144115188075855872)
        (smoothedVelocityEffectDouble 1 (7205759403792795 / 144115188075855872)
        (handleStart True testPlatform 1000 initialApp)))))))) =
       \<lparr>totalVelocity = 6305039478318695 / 18014398509481984, peakVelocity = 7205759403792795 / 144115188075855872,
         samples = 7, startTime = 1000\<rparr>"
    by (subst effectDouble_stats)
      (simp add: s6 handleStart_stats handleStart_appState effectDouble_appState
        roundDouble_values)
  show ?thesis
    unfolding effectsDouble.simps by (rule s7)
qed

text \<open>
  The theorem on the session of three samples of 0.1: the average is the double
  0.10000000000000002, within the bounds for \<open>n = 3\<close>.
\<close>

theorem average_within_rounding_witness:
  "samples (sessionStats (effectsDouble [(1, 3602879701896397 / 36028797018963968), (2, 3602879701896397 / 36028797018963968), (3, 3602879701896397 / 36028797018963968)]
        (handleStart True testPlatform 1000 initialApp))) = 3 \<and>
   fst (snd (handleEndSessionDouble 31000 (effectsDouble [(1, 3602879701896397 / 36028797018963968), (2, 3602879701896397 / 36028797018963968), (3, 3602879701896397 / 36028797018963968)]
        (handleStart True testPlatform 1000 initialApp)))) = 7205759403792795 / 72057594037927936 \<and>
   roundDouble 0.05 * (1 - unitRoundoff) ^ 4 < 7205759403792795 / 72057594037927936 \<and>
   7205759403792795 / 72057594037927936 \<le> (3602879701896397 / 36028797018963968) * (1 + unitRoundoff) ^ 4"
proof -
  let ?a = "effectsDouble [(1, 3602879701896397 / 36028797018963968), (2, 3602879701896397 / 36028797018963968), (3, 3602879701896397 / 36028797018963968)]
        (handleStart True testPlatform 1000 initialApp)"
  have pos: "0 < samples (sessionStats ?a)"
    unfolding tenths_stats by simp
  from average_within_rounding [OF pos, of 31000]
  obtain a1 avgSpeed peak duration
    where h: "handleEndSessionDouble 31000 ?a = (a1, avgSpeed, peak, duration)"
      and pk: "peak = peakVelocity (sessionStats ?a)"
      and lo: "roundDouble 0.05 * (1 - unitRoundoff) ^ (samples (sessionStats ?a) + 1) < avgSpeed"
      and hi: "avgSpeed \<le> peak * (1 + unitRoundoff) ^ (samples (sessionStats ?a) + 1)"
    by blast
  have "snd (handleEndSessionDouble 31000 ?a) = (avgSpeed, peak, duration)"
    unfolding h by simp
  then have avg: "avgSpeed = 7205759403792795 / 72057594037927936"
    unfolding handleEndSessionDouble_args tenths_stats
    by (simp add: roundDouble_tenths_average)
  have pk': "peak = 3602879701896397 / 36028797018963968"
    unfolding pk tenths_stats by simp
  have n: "samples (sessionStats ?a) + 1 = 4"
    unfolding tenths_stats by simp
  from lo hi show ?thesis
    unfolding n avg pk' h tenths_stats by simp
qed

text \<open>
  C10 as stated fails. Three samples of 0.1 have the sum 0.30000000000000004 and the
  average 0.10000000000000002, which is above the peak 0.1. Seven samples of
  0.05000000000000001, each above the deadband, have the average 0.05, which is not
  above the deadband.
\<close>

theorem average_double_counterexample:
  "roundDouble 0.1 = 3602879701896397 / 36028797018963968 \<and>
   samples (sessionStats (effectsDouble [(1, 3602879701896397 / 36028797018963968), (2, 3602879701896397 / 36028797018963968), (3, 3602879701896397 / 36028797018963968)]
        (handleStart True testPlatform 1000 initialApp))) = 3 \<and>
   fst (snd (handleEndSessionDouble 31000 (effectsDouble [(1, 3602879701896397 / 36028797018963968), (2, 3602879701896397 / 36028797018963968), (3, 3602879701896397 / 36028797018963968)]
        (handleStart True testPlatform 1000 initialApp)))) = 7205759403792795 / 72057594037927936 \<and>
   fst (snd (snd (handleEndSessionDouble 31000 (effectsDouble [(1, 3602879701896397 / 36028797018963968), (2, 3602879701896397 / 36028797018963968), (3, 3602879701896397 / 36028797018963968)]
        (handleStart True testPlatform 1000 initialApp))))) = 3602879701896397 / 36028797018963968 \<and>
   \<not> fst (snd (handleEndSessionDouble 31000 (effectsDouble [(1, 3602879701896397 / 36028797018963968), (2, 3602879701896397 / 36028797018963968), (3, 3602879701896397 / 36028797018963968)]
        (handleStart True testPlatform 1000 initialApp))))
       \<le> fst (snd (snd (handleEndSessionDouble 31000 (effectsDouble [(1, 3602879701896397 / 36028797018963968), (2, 3602879701896397 / 36028797018963968), (3, 3602879701896397 / 36028797018963968)]
        (handleStart True testPlatform 1000 initialApp))))) \<and>
   roundDouble 0.05000000000000001 = 7205759403792795 / 144115188075855872 \<and>
   roundDouble 0.05 = 3602879701896397 / 72057594037927936 \<and>
   samples (sessionStats (effectsDouble [(1, 7205759403792795 / 144115188075855872), (2, 7205759403792795 / 144115188075855872), (3, 7205759403792795 / 144115188075855872), (4, 7205759403792795 / 144115188075855872), (5, 7205759403792795 / 144115188075855872), (6, 7205759403792795 / 144115188075855872), (7, 7205759403792795 / 144115188075855872)]
        (handleStart True testPlatform 1000 initialApp))) = 7 \<and>
   fst (snd (handleEndSessionDouble 31000 (effectsDouble [(1, 7205759403792795 / 144115188075855872), (2, 7205759403792795 / 144115188075855872), (3, 7205759403792795 / 144115188075855872), (4, 7205759403792795 / 144115188075855872), (5, 7205759403792795 / 144115188075855872), (6, 7205759403792795 / 144115188075855872), (7, 7205759403792795 / 144115188075855872)]
        (handleStart True testPlatform 1000 initialApp)))) = 3602879701896397 / 72057594037927936 \<and>
   \<not> roundDouble 0.05 < fst (snd (handleEndSessionDouble 31000 (effectsDouble [(1, 7205759403792795 / 144115188075855872), (2, 7205759403792795 / 144115188075855872), (3, 7205759403792795 / 144115188075855872), (4, 7205759403792795 / 144115188075855872), (5, 7205759403792795 / 144115188075855872), (6, 7205759403792795 / 144115188075855872), (7, 7205759403792795 / 144115188075855872)]
        (handleStart True testPlatform 1000 initialApp))))"
  unfolding handleEndSessionDouble_args tenths_stats sevenfold_stats double_literals
  by (simp add: roundDouble_tenths_average roundDouble_sevenfold_average)


section \<open>Properties of the audio engine\<close>

lemma init_initialized: "isInitialized (init env e)"
  by (simp add: init_def Let_def)

lemma init_testPlatform:
  "init testPlatform newAudioEngine =
     \<lparr>ctx = Some \<lparr>sampleRate = 1, ctxState = suspended\<rparr>,
      noiseNode = Some \<lparr>buffer = [7 / 102, 707 / 5202], looping = True,
                        sourceOutputs = [FilterNode], startedAt = Some 0\<rparr>,
      gainNode = Some \<lparr>gain = \<lparr>pvalue = 0, targets = []\<rparr>, gainOutputs = [Destination]\<rparr>,
      filterNode = Some \<lparr>filterType = ''lowpass'', frequency = \<lparr>pvalue = 200, targets = []\<rparr>,
                          filterOutputs = [GainNode]\<rparr>,
      isInitialized = True\<rparr>"
  by (simp add: init_def testPlatform_def newAudioEngine_def Let_def noiseLoop.simps
      constantDraws_def eval_nat_numeral)

text \<open>
  C4. On an engine whose context, gain node and filter node exist, \<open>updateWind\<close> schedules
  on the gain the target \<open>min (intensity * 1.5) 0.8\<close> (time constant 0.1) and on the filter
  frequency the target \<open>200 + intensity * 1500\<close> (time constant 0.2), and changes nothing
  else. For intensity 0 the targets are 0 and 200; for intensity 1.0 they are 0.8 and 1700.
\<close>

theorem updateWind_targets:
  assumes "ctx e = Some c" and "gainNode e = Some g" and "filterNode e = Some f"
  shows "updateWind now intensity e =
           e\<lparr>gainNode := Some (g\<lparr>gain := (gain g)\<lparr>targets := targets (gain g) @
                  [(min (intensity * 1.5) 0.8, now, 0.1)]\<rparr>\<rparr>),
             filterNode := Some (f\<lparr>frequency := (frequency f)\<lparr>targets :=
                  targets (frequency f) @ [(200 + intensity * 1500, now, 0.2)]\<rparr>\<rparr>)\<rparr> \<and>
         updateWind now 0 e =
           e\<lparr>gainNode := Some (g\<lparr>gain := (gain g)\<lparr>targets := targets (gain g) @
                  [(0, now, 0.1)]\<rparr>\<rparr>),
             filterNode := Some (f\<lparr>frequency := (frequency f)\<lparr>targets :=
                  targets (frequency f) @ [(200, now, 0.2)]\<rparr>\<rparr>)\<rparr> \<and>
         updateWind now 1.0 e =
           e\<lparr>gainNode := Some (g\<lparr>gain := (gain g)\<lparr>targets := targets (gain g) @
                  [(0.8, now, 0.1)]\<rparr>\<rparr>),
             filterNode := Some (f\<lparr>frequency := (frequency f)\<lparr>targets :=
                  targets (frequency f) @ [(1700, now, 0.2)]\<rparr>\<rparr>)\<rparr>"
  using assms by (simp add: updateWind_def setTargetAtTime_def Let_def)

text \<open>
  The theorem on the engine that \<open>init\<close> builds on the test platform, at intensity 0.4 and
  clock 2: the gain target is 0.6 and the frequency target 800.
\<close>

theorem updateWind_targets_witness:
  "gainNode (updateWind 2 0.4 (init testPlatform newAudioEngine)) =
     Some \<lparr>gain = \<lparr>pvalue = 0, targets = [(0.6, 2, 0.1)]\<rparr>, gainOutputs = [Destination]\<rparr> \<and>
   filterNode (updateWind 2 0.4 (init testPlatform newAudioEngine)) =
     Some \<lparr>filterType = ''lowpass'', frequency = \<lparr>pvalue = 200, targets = [(800, 2, 0.2)]\<rparr>,
           filterOutputs = [GainNode]\<rparr>"
  using updateWind_targets [of "init testPlatform newAudioEngine"
      "\<lparr>sampleRate = 1, ctxState = suspended\<rparr>"
      "\<lparr>gain = \<lparr>pvalue = 0, targets = []\<rparr>, gainOutputs = [Destination]\<rparr>"
      "\<lparr>filterType = ''lowpass'', frequency = \<lparr>pvalue = 200, targets = []\<rparr>,
        filterOutputs = [GainNode]\<rparr>" 2 "0.4"]
  by (simp add: init_testPlatform)

text \<open>
  C8. A second call of \<open>init\<close> right after a first one, on whatever platform, leaves the
  whole engine (context, noise source, filter, gain, flag) as the first call left it:
  the first call leaves the flag set, and the second returns at once.
\<close>

theorem init_idempotent:
  "init env2 (init env1 e) = init env1 e \<and> isInitialized (init env1 e)"
proof -
  have "isInitialized (init env1 e)" by (rule init_initialized)
  then show ?thesis by (simp add: init_def [of env2])
qed

lemma noiseLoop_step:
  assumes "i < bufferSize"
  shows "noiseLoop rnd bufferSize i lastOut buf =
     noiseLoop rnd bufferSize (Suc i)
       (buf[i := (lastOut + 0.02 * (rnd i * 2 - 1)) / 1.02] ! i)
       (buf[i := (lastOut + 0.02 * (rnd i * 2 - 1)) / 1.02,
            i := buf[i := (lastOut + 0.02 * (rnd i * 2 - 1)) / 1.02] ! i * 3.5])"
  by (subst noiseLoop.simps) (simp only: assms if_True Let_def)

lemma noiseLoop_done:
  assumes "\<not> i < bufferSize"
  shows "noiseLoop rnd bufferSize i lastOut buf = buf"
  by (subst noiseLoop.simps) (simp only: assms if_False)

lemma noiseLoop_length:
  "length (noiseLoop rnd bufferSize i lastOut buf) = length buf"
proof (induction "bufferSize - i" arbitrary: i lastOut buf)
  case 0
  then have "\<not> i < bufferSize" by simp
  then show ?case by (simp add: noiseLoop_done)
next
  case (Suc k)
  then have lt: "i < bufferSize" and k: "k = bufferSize - Suc i" by simp_all
  show ?case
    by (simp only: noiseLoop_step [OF lt] Suc.hyps(1) [OF k] length_list_update)
qed

text \<open>One step of the filter keeps the state within \<open>[-1, 1]\<close>.\<close>

lemma filter_step_bounded:
  fixes l u :: real
  assumes "\<bar>l\<bar> \<le> 1" and "0 \<le> u" and "u \<le> 1"
  shows "\<bar>(l + 0.02 * (u * 2 - 1)) / 1.02\<bar> \<le> 1"
  using assms by (simp add: abs_le_iff field_simps)

lemma noiseLoop_bounded:
  assumes "length buf = bufferSize"
    and "\<bar>lastOut\<bar> \<le> 1"
    and "\<forall>j < i. \<bar>buf ! j\<bar> \<le> 3.5"
    and "\<forall>k < bufferSize. 0 \<le> rnd k \<and> rnd k \<le> 1"
    and "i \<le> bufferSize"
  shows "\<forall>j < bufferSize. \<bar>noiseLoop rnd bufferSize i lastOut buf ! j\<bar> \<le> 3.5"
  using assms
proof (induction "bufferSize - i" arbitrary: i lastOut buf)
  case 0
  then have "\<not> i < bufferSize" and "i = bufferSize" by simp_all
  then show ?case using "0.prems"(3) by (simp add: noiseLoop_done)
next
  case (Suc k)
  then have lt: "i < bufferSize" and k: "k = bufferSize - Suc i" by simp_all
  define out where "out = (lastOut + 0.02 * (rnd i * 2 - 1)) / 1.02"
  have b: "\<bar>out\<bar> \<le> 1"
    unfolding out_def using Suc.prems(2,4) lt by (intro filter_step_bounded) auto
  have rd: "buf[i := out] ! i = out"
    using lt Suc.prems(1) by simp
  have len: "length (buf[i := out, i := out * 3.5]) = bufferSize"
    using Suc.prems(1) by simp
  have written: "\<forall>j < Suc i. \<bar>buf[i := out, i := out * 3.5] ! j\<bar> \<le> 3.5"
  proof (intro allI impI)
    fix j assume j: "j < Suc i"
    show "\<bar>buf[i := out, i := out * 3.5] ! j\<bar> \<le> 3.5"
    proof (cases "j = i")
      case True
      have "buf[i := out, i := out * 3.5] ! i = out * 3.5"
        using lt Suc.prems(1) by simp
      then show ?thesis using b True by (simp add: abs_mult)
    next
      case False
      with j have "j < i" by simp
      then show ?thesis using Suc.prems(3) False by simp
    qed
  qed
  have step: "noiseLoop rnd bufferSize i lastOut buf =
              noiseLoop rnd bufferSize (Suc i) out (buf[i := out, i := out * 3.5])"
    unfolding out_def [symmetric] noiseLoop_step [OF lt] by (simp only: rd out_def [symmetric])
  have "\<forall>j < bufferSize.
          \<bar>noiseLoop rnd bufferSize (Suc i) out (buf[i := out, i := out * 3.5]) ! j\<bar> \<le> 3.5"
    using lt by (intro Suc.hyps(1) [OF k] len b written Suc.prems(4)) simp
  then show ?case by (simp only: step)
qed

text \<open>
  C9. When \<open>init\<close> runs on an engine that is not initialised and every call of
  \<open>Math.random()\<close> it makes returns a value in \<open>[0, 1]\<close> (so every \<open>white\<close> is in
  \<open>[-1, 1]\<close>), the noise buffer has \<open>2 * sampleRate\<close> samples and each of them has
  absolute value at most 3.5.
\<close>

theorem noise_buffer_bounded:
  assumes "\<not> isInitialized e"
    and "\<forall>k < 2 * deviceSampleRate env. 0 \<le> random env k \<and> random env k \<le> 1"
  shows "\<exists>n. noiseNode (init env e) = Some n \<and>
              length (buffer n) = 2 * deviceSampleRate env \<and>
              (\<forall>v \<in> set (buffer n). \<bar>v\<bar> \<le> 3.5)"
proof -
  let ?size = "2 * deviceSampleRate env"
  let ?out = "noiseLoop (random env) ?size 0 0 (replicate ?size 0)"
  have len: "length ?out = ?size" by (simp add: noiseLoop_length)
  have "\<forall>j < ?size. \<bar>?out ! j\<bar> \<le> 3.5"
    using assms(2) by (intro noiseLoop_bounded) simp_all
  with len have "\<forall>v \<in> set ?out. \<bar>v\<bar> \<le> 3.5"
    by (metis in_set_conv_nth)
  with len show ?thesis
    using assms(1) by (simp add: init_def Let_def)
qed

text \<open>
  The theorem on the test platform, where every draw is 1: the two samples are
  \<open>7 / 102\<close> and \<open>707 / 5202\<close>.
\<close>

theorem noise_buffer_bounded_witness:
  "\<not> isInitialized newAudioEngine \<and>
   deviceSampleRate testPlatform = 1 \<and>
   random testPlatform 0 = 1 \<and> random testPlatform 1 = 1 \<and>
   (\<exists>n. noiseNode (init testPlatform newAudioEngine) = Some n \<and>
        buffer n = [7 / 102, 707 / 5202] \<and>
        length (buffer n) = 2 * deviceSampleRate testPlatform \<and>
        (\<forall>v \<in> set (buffer n). \<bar>v\<bar> \<le> 3.5))"
proof -
  have h1: "\<not> isInitialized newAudioEngine"
    by (simp add: newAudioEngine_def)
  have h2: "\<forall>k < 2 * deviceSampleRate testPlatform.
       0 \<le> random testPlatform k \<and> random testPlatform k \<le> 1"
    by (simp add: testPlatform_def constantDraws_def)
  have h3: "deviceSampleRate testPlatform = 1 \<and>
            random testPlatform 0 = 1 \<and> random testPlatform 1 = 1"
    by (simp add: testPlatform_def constantDraws_def)
  from noise_buffer_bounded [OF h1 h2] h1 h3 show ?thesis
    by (simp add: init_testPlatform)
qed

section \<open>Properties of the particle offsets\<close>

lemma abs_randomOffset:
  "\<bar>randomOffset p u s r\<bar> = \<bar>u\<bar> ^ randomnessPower p * \<bar>randomness p * r\<bar>"
  by (simp add: randomOffset_def abs_mult power_abs)

lemma cube_le_self:
  fixes u :: real
  assumes "0 \<le> u" and "u < 1"
  shows "u ^ 3 \<le> u ^ 1"
  using assms by (intro power_decreasing) simp_all

lemma offset_le:
  assumes "0 \<le> u" and "u < 1"
  shows "\<bar>randomOffset (p\<lparr>randomnessPower := 3\<rparr>) u s r\<bar>
           \<le> \<bar>randomOffset (p\<lparr>randomnessPower := 1\<rparr>) u s r\<bar>"
proof -
  have "u ^ 3 * \<bar>randomness p * r\<bar> \<le> u ^ 1 * \<bar>randomness p * r\<bar>"
    by (intro mult_right_mono cube_le_self assms) simp
  then show ?thesis
    using assms by (simp add: abs_randomOffset)
qed

lemma parameters_cubed: "parameters\<lparr>randomnessPower := 3\<rparr> = parameters"
  by (simp add: parameters_def)

lemma particleRadius_power:
  "particleRadius (p\<lparr>randomnessPower := k\<rparr>) rnd i = particleRadius p rnd i"
  by (simp add: particleRadius_def)

lemma randomX_le:
  assumes "\<forall>k. 0 \<le> rnd k \<and> rnd k < 1"
  shows "\<bar>randomX parameters rnd i\<bar> \<le> \<bar>randomX (parameters\<lparr>randomnessPower := 1\<rparr>) rnd i\<bar>"
  using offset_le [of "rnd (7 * i + 1)" parameters] assms
  by (simp add: randomX_def parameters_cubed particleRadius_power)

lemma randomY_le:
  assumes "\<forall>k. 0 \<le> rnd k \<and> rnd k < 1"
  shows "\<bar>randomY parameters rnd i\<bar> \<le> \<bar>randomY (parameters\<lparr>randomnessPower := 1\<rparr>) rnd i\<bar>"
  using offset_le [of "rnd (7 * i + 3)" parameters] assms
  by (simp add: randomY_def parameters_cubed particleRadius_power)

lemma randomZ_le:
  assumes "\<forall>k. 0 \<le> rnd k \<and> rnd k < 1"
  shows "\<bar>randomZ parameters rnd i\<bar> \<le> \<bar>randomZ (parameters\<lparr>randomnessPower := 1\<rparr>) rnd i\<bar>"
  using offset_le [of "rnd (7 * i + 5)" parameters] assms
  by (simp add: randomZ_def parameters_cubed particleRadius_power)

lemma meanAbsOffset_parameters:
  "meanAbsOffset (parameters\<lparr>randomnessPower := k\<rparr>) rnd =
     (\<Sum>i<15000. \<bar>randomX (parameters\<lparr>randomnessPower := k\<rparr>) rnd i\<bar>
                + \<bar>randomY (parameters\<lparr>randomnessPower := k\<rparr>) rnd i\<bar>
                + \<bar>randomZ (parameters\<lparr>randomnessPower := k\<rparr>) rnd i\<bar>) / 45000"
  by (simp add: meanAbsOffset_def parameters_def)

lemma mean_le:
  assumes "\<forall>k. 0 \<le> rnd k \<and> rnd k < 1"
  shows "meanAbsOffset parameters rnd \<le> meanAbsOffset (parameters\<lparr>randomnessPower := 1\<rparr>) rnd"
proof -
  have "(\<Sum>i<15000. \<bar>randomX parameters rnd i\<bar> + \<bar>randomY parameters rnd i\<bar>
                        + \<bar>randomZ parameters rnd i\<bar>)
        \<le> (\<Sum>i<15000. \<bar>randomX (parameters\<lparr>randomnessPower := 1\<rparr>) rnd i\<bar>
                        + \<bar>randomY (parameters\<lparr>randomnessPower := 1\<rparr>) rnd i\<bar>
                        + \<bar>randomZ (parameters\<lparr>randomnessPower := 1\<rparr>) rnd i\<bar>)"
    by (intro sum_mono add_mono randomX_le randomY_le randomZ_le assms)
  then have "meanAbsOffset (parameters\<lparr>randomnessPower := 3\<rparr>) rnd
             \<le> meanAbsOffset (parameters\<lparr>randomnessPower := 1\<rparr>) rnd"
    unfolding meanAbsOffset_parameters by (simp add: parameters_cubed divide_right_mono)
  then show ?thesis by (simp add: parameters_cubed)
qed

text \<open>
  C7, as the code has it. Take the program's parameters (exponent 3) and the same with
  exponent 1, and the same draws, each in \<open>[0, 1)\<close>. For every particle the absolute value
  of each of the three offsets under exponent 3 is at most the one under exponent 1.
  Hence the mean absolute offset under exponent 3 is at most the one under exponent 1.
\<close>

theorem power_three_tightens:
  assumes "\<forall>k. 0 \<le> rnd k \<and> rnd k < 1"
  shows "\<bar>randomX parameters rnd i\<bar> \<le> \<bar>randomX (parameters\<lparr>randomnessPower := 1\<rparr>) rnd i\<bar> \<and>
         \<bar>randomY parameters rnd i\<bar> \<le> \<bar>randomY (parameters\<lparr>randomnessPower := 1\<rparr>) rnd i\<bar> \<and>
         \<bar>randomZ parameters rnd i\<bar> \<le> \<bar>randomZ (parameters\<lparr>randomnessPower := 1\<rparr>) rnd i\<bar> \<and>
         meanAbsOffset parameters rnd
            \<le> meanAbsOffset (parameters\<lparr>randomnessPower := 1\<rparr>) rnd"
  by (intro conjI randomX_le randomY_le randomZ_le mean_le assms)

text \<open>
  The theorem with every draw \<open>1 / 2\<close>: each radius is 2.5, and the x offset of the first
  particle has absolute value \<open>1 / 16\<close> under exponent 3 and \<open>1 / 4\<close> under exponent 1.
\<close>

theorem power_three_tightens_witness:
  "(\<forall>k. 0 \<le> constantDraws (1 / 2) k \<and> constantDraws (1 / 2) k < 1) \<and>
   \<bar>randomX parameters (constantDraws (1 / 2)) 0\<bar> = 1 / 16 \<and>
   \<bar>randomX (parameters\<lparr>randomnessPower := 1\<rparr>) (constantDraws (1 / 2)) 0\<bar> = 1 / 4 \<and>
   \<bar>randomX parameters (constantDraws (1 / 2)) 0\<bar>
      \<le> \<bar>randomX (parameters\<lparr>randomnessPower := 1\<rparr>) (constantDraws (1 / 2)) 0\<bar> \<and>
   meanAbsOffset parameters (constantDraws (1 / 2))
      \<le> meanAbsOffset (parameters\<lparr>randomnessPower := 1\<rparr>) (constantDraws (1 / 2))"
proof -
  have draws: "\<forall>k. 0 \<le> constantDraws (1 / 2) k \<and> constantDraws (1 / 2) k < 1"
    by (simp add: constantDraws_def)
  have v3: "\<bar>randomX parameters (constantDraws (1 / 2)) 0\<bar> = 1 / 16"
    by (simp add: randomX_def randomOffset_def particleRadius_def parameters_def
        constantDraws_def eval_nat_numeral)
  have v1: "\<bar>randomX (parameters\<lparr>randomnessPower := 1\<rparr>) (constantDraws (1 / 2)) 0\<bar> = 1 / 4"
    by (simp add: randomX_def randomOffset_def particleRadius_def parameters_def
        constantDraws_def)
  from power_three_tightens [OF draws, of 0] draws v3 v1 show ?thesis
    by simp
qed

text \<open>
  C7 as stated fails when draws are 0, which \<open>Math.random()\<close> can return: with every draw
  0 the first particle's x offset is 0 under both exponents, so it does not decrease, and
  the two means are equal, so the one under exponent 3 is not smaller.
\<close>

theorem power_three_counterexample:
  "\<bar>randomX parameters (constantDraws 0) 0\<bar> = 0 \<and>
   \<bar>randomX (parameters\<lparr>randomnessPower := 1\<rparr>) (constantDraws 0) 0\<bar> = 0 \<and>
   \<not> \<bar>randomX parameters (constantDraws 0) 0\<bar>
       < \<bar>randomX (parameters\<lparr>randomnessPower := 1\<rparr>) (constantDraws 0) 0\<bar> \<and>
   meanAbsOffset parameters (constantDraws 0) = 0 \<and>
   meanAbsOffset (parameters\<lparr>randomnessPower := 1\<rparr>) (constantDraws 0) = 0 \<and>
   \<not> meanAbsOffset parameters (constantDraws 0)
       < meanAbsOffset (parameters\<lparr>randomnessPower := 1\<rparr>) (constantDraws 0)"
  by (simp add: meanAbsOffset_def randomX_def randomY_def randomZ_def randomOffset_def
      particleRadius_def constantDraws_def)

end
